theory Spec2Isabelle
  imports Main "HOL-Library.Sublist"
begin

section \<open>Python values used by bot.py\<close>

text \<open>
  Text is a \<^typ>\<open>string\<close>: the bytes of the UTF-8 encoding of the Python \<open>str\<close>. Every
  separator the bot searches for is ASCII, so searching the bytes finds what searching the
  code points finds. Integers are unbounded, as Python's are; the interpreter's
  configurable limit on the length of a decimal conversion is not modelled.

  An exception of the source is a value of \<open>exn\<close>. \<open>TelegramError\<close> stands for whatever a
  failing call of the transport (aiogram) raises, \<open>ValidationError\<close> for what aiogram
  raises before any call when it is handed \<open>None\<close> as the text to send.
\<close>

datatype exn = AttributeError | IndexError | ValueError | TelegramError | ValidationError

subsection \<open>\<open>str(int)\<close>\<close>

fun str_nat :: "nat \<Rightarrow> string" where
  "str_nat n = (if n < 10 then [char_of (48 + n)]
                else str_nat (n div 10) @ [char_of (48 + n mod 10)])"

declare str_nat.simps [simp del]

definition py_str :: "int \<Rightarrow> string" where
  "py_str i = (if i < 0 then CHR ''-'' # str_nat (nat (- i)) else str_nat (nat i))"

subsection \<open>\<open>int(str)\<close>\<close>

text \<open>
  \<open>int(s)\<close> strips white space at both ends, reads an optional sign and then decimal
  digits, where a single underscore may stand between two digits; anything else raises
  ValueError. The model reads ASCII, where white space is the tab, the line feed, the
  vertical tab, the form feed, the carriage return and the space (codes 9 to 13 and 32);
  the digits and spaces beyond ASCII that Python also accepts do not occur in any text the
  results below hand to \<open>int\<close>.
\<close>

definition is_digit :: "char \<Rightarrow> bool" where
  "is_digit c = (48 \<le> (of_char c :: nat) \<and> (of_char c :: nat) \<le> 57)"

definition digit_val :: "char \<Rightarrow> nat" where
  "digit_val c = of_char c - 48"

definition is_space :: "char \<Rightarrow> bool" where
  "is_space c = ((9 \<le> (of_char c :: nat) \<and> (of_char c :: nat) \<le> 13)
               \<or> (of_char c :: nat) = 32)"

definition py_strip :: "string \<Rightarrow> string" where
  "py_strip s = rev (dropWhile is_space (rev (dropWhile is_space s)))"

fun digits_val :: "nat \<Rightarrow> string \<Rightarrow> nat option" where
  "digits_val acc [] = Some acc"
| "digits_val acc (c # cs) =
     (if is_digit c then digits_val (10 * acc + digit_val c) cs
      else if c = CHR ''_'' \<and> cs \<noteq> [] \<and> is_digit (hd cs) then digits_val acc cs
      else None)"

definition parse_nat :: "string \<Rightarrow> nat option" where
  "parse_nat s = (case s of [] \<Rightarrow> None
                  | c # cs \<Rightarrow> if is_digit c then digits_val 0 s else None)"

definition py_int :: "string \<Rightarrow> exn + int" where
  "py_int s =
     (let t = py_strip s;
          r = (case t of
                 [] \<Rightarrow> None
               | c # cs \<Rightarrow>
                   if c = CHR ''-'' then map_option (\<lambda>n. - int n) (parse_nat cs)
                   else if c = CHR ''+'' then map_option int (parse_nat cs)
                   else map_option int (parse_nat t))
      in case r of None \<Rightarrow> Inl ValueError | Some i \<Rightarrow> Inr i)"

subsection \<open>\<open>str.split\<close>, \<open>str.replace\<close>, \<open>str.startswith\<close>, indexing\<close>

text \<open>
  \<open>s.split(sep)\<close> cuts \<open>s\<close> at every occurrence of \<open>sep\<close>, found from the left and not
  overlapping; the result always has at least one part. \<open>s.replace(old, new)\<close> finds the
  occurrences the same way. Both are called with a non-empty literal only; the model
  returns \<open>[s]\<close> and \<open>s\<close> for an empty one, which no call reaches.
\<close>

fun py_split :: "string \<Rightarrow> string \<Rightarrow> string list" where
  "py_split sep [] = [[]]"
| "py_split sep (c # cs) =
     (if sep = [] then [c # cs]
      else if prefix sep (c # cs) then [] # py_split sep (drop (length sep) (c # cs))
      else (case py_split sep cs of
              [] \<Rightarrow> [[c]]
            | p # ps \<Rightarrow> (c # p) # ps))"

declare py_split.simps(2) [simp del]

fun py_replace :: "string \<Rightarrow> string \<Rightarrow> string \<Rightarrow> string" where
  "py_replace old new [] = []"
| "py_replace old new (c # cs) =
     (if old = [] then c # cs
      else if prefix old (c # cs) then new @ py_replace old new (drop (length old) (c # cs))
      else c # py_replace old new cs)"

declare py_replace.simps(2) [simp del]

definition startswith :: "string \<Rightarrow> string \<Rightarrow> bool" where
  "startswith s p = prefix p s"

definition py_index :: "'a list \<Rightarrow> nat \<Rightarrow> exn + 'a" where
  "py_index xs i = (if i < length xs then Inr (xs ! i) else Inl IndexError)"

definition bind_exn :: "exn + 'a \<Rightarrow> ('a \<Rightarrow> exn + 'b) \<Rightarrow> exn + 'b" where
  "bind_exn r k = (case r of Inl e \<Rightarrow> Inl e | Inr x \<Rightarrow> k x)"

text \<open>
  A dict read from JSON has \<open>str\<close> keys only, and an \<open>int\<close> is never equal to a \<open>str\<close>:
  \<open>k in d.keys()\<close> is False for every \<open>int\<close> \<open>k\<close>, whatever \<open>d\<close> holds.
\<close>

datatype pykey = IntKey int | StrKey string

definition in_keys :: "pykey \<Rightarrow> (string \<rightharpoonup> 'v) \<Rightarrow> bool" where
  "in_keys k d = (case k of IntKey i \<Rightarrow> False | StrKey s \<Rightarrow> d s \<noteq> None)"

subsection \<open>The literals of the source that are not ASCII\<close>

text \<open>Each is the UTF-8 encoding of the Russian text in bot.py.\<close>

definition txt_message_from :: string where
  "txt_message_from =
    [CHR 0xD0, CHR 0xA1, CHR 0xD0, CHR 0xBE, CHR 0xD0, CHR 0xBE, CHR 0xD0, CHR 0xB1,
     CHR 0xD1, CHR 0x89, CHR 0xD0, CHR 0xB5, CHR 0xD0, CHR 0xBD, CHR 0xD0, CHR 0xB8,
     CHR 0xD0, CHR 0xB5, CHR 0x20, CHR 0xD0, CHR 0xBE, CHR 0xD1, CHR 0x82, CHR 0x20]"

definition txt_product_id :: string where
  "txt_product_id =
    [CHR 0x49, CHR 0x44, CHR 0x20, CHR 0xD0, CHR 0xBF, CHR 0xD1, CHR 0x80, CHR 0xD0,
     CHR 0xBE, CHR 0xD0, CHR 0xB4, CHR 0xD1, CHR 0x83, CHR 0xD0, CHR 0xBA, CHR 0xD1,
     CHR 0x82, CHR 0xD0, CHR 0xB0, CHR 0x3A, CHR 0x20]"

definition txt_unknown :: string where
  "txt_unknown =
    [CHR 0xD0, CHR 0x9D, CHR 0xD0, CHR 0xB5, CHR 0xD0, CHR 0xB8, CHR 0xD0, CHR 0xB7,
     CHR 0xD0, CHR 0xB2, CHR 0xD0, CHR 0xB5, CHR 0xD1, CHR 0x81, CHR 0xD1, CHR 0x82,
     CHR 0xD0, CHR 0xBD, CHR 0xD0, CHR 0xBE]"

definition txt_ask :: string where
  "txt_ask =
    [CHR 0xD0, CHR 0x97, CHR 0xD0, CHR 0xB0, CHR 0xD0, CHR 0xB4, CHR 0xD0, CHR 0xB0,
     CHR 0xD0, CHR 0xB2, CHR 0xD0, CHR 0xB0, CHR 0xD0, CHR 0xB9, CHR 0xD1, CHR 0x82,
     CHR 0xD0, CHR 0xB5, CHR 0x20, CHR 0xD1, CHR 0x81, CHR 0xD0, CHR 0xB2, CHR 0xD0,
     CHR 0xBE, CHR 0xD0, CHR 0xB8, CHR 0x20, CHR 0xD0, CHR 0xB2, CHR 0xD0, CHR 0xBE,
     CHR 0xD0, CHR 0xBF, CHR 0xD1, CHR 0x80, CHR 0xD0, CHR 0xBE, CHR 0xD1, CHR 0x81,
     CHR 0xD1, CHR 0x8B]"

definition txt_finish :: string where
  "txt_finish =
    [CHR 0xD0, CHR 0x97, CHR 0xD0, CHR 0xB0, CHR 0xD0, CHR 0xBA, CHR 0xD0, CHR 0xBE,
     CHR 0xD0, CHR 0xBD, CHR 0xD1, CHR 0x87, CHR 0xD0, CHR 0xB8, CHR 0xD1, CHR 0x82,
     CHR 0xD1, CHR 0x8C]"

definition txt_block :: string where
  "txt_block =
    [CHR 0xD0, CHR 0x97, CHR 0xD0, CHR 0xB0, CHR 0xD0, CHR 0xB1, CHR 0xD0, CHR 0xBB,
     CHR 0xD0, CHR 0xBE, CHR 0xD0, CHR 0xBA, CHR 0xD0, CHR 0xB8, CHR 0xD1, CHR 0x80,
     CHR 0xD0, CHR 0xBE, CHR 0xD0, CHR 0xB2, CHR 0xD0, CHR 0xB0, CHR 0xD1, CHR 0x82,
     CHR 0xD1, CHR 0x8C]"

definition txt_unblock :: string where
  "txt_unblock =
    [CHR 0xD0, CHR 0xA0, CHR 0xD0, CHR 0xB0, CHR 0xD0, CHR 0xB7, CHR 0xD0, CHR 0xB1,
     CHR 0xD0, CHR 0xBB, CHR 0xD0, CHR 0xBE, CHR 0xD0, CHR 0xBA, CHR 0xD0, CHR 0xB8,
     CHR 0xD1, CHR 0x80, CHR 0xD0, CHR 0xBE, CHR 0xD0, CHR 0xB2, CHR 0xD0, CHR 0xB0,
     CHR 0xD1, CHR 0x82, CHR 0xD1, CHR 0x8C]"

definition txt_user :: string where
  "txt_user =
    [CHR 0xD0, CHR 0x9F, CHR 0xD0, CHR 0xBE, CHR 0xD0, CHR 0xBB, CHR 0xD1, CHR 0x8C,
     CHR 0xD0, CHR 0xB7, CHR 0xD0, CHR 0xBE, CHR 0xD0, CHR 0xB2, CHR 0xD0, CHR 0xB0,
     CHR 0xD1, CHR 0x82, CHR 0xD0, CHR 0xB5, CHR 0xD0, CHR 0xBB, CHR 0xD1, CHR 0x8C,
     CHR 0x20]"

definition txt_sent_unsupported :: string where
  "txt_sent_unsupported =
    [CHR 0x20, CHR 0xD0, CHR 0xBE, CHR 0xD1, CHR 0x82, CHR 0xD0, CHR 0xBF, CHR 0xD1,
     CHR 0x80, CHR 0xD0, CHR 0xB0, CHR 0xD0, CHR 0xB2, CHR 0xD0, CHR 0xB8, CHR 0xD0,
     CHR 0xBB, CHR 0x20, CHR 0xD0, CHR 0xBD, CHR 0xD0, CHR 0xB5, CHR 0xD0, CHR 0xBF,
     CHR 0xD0, CHR 0xBE, CHR 0xD0, CHR 0xB4, CHR 0xD0, CHR 0xB4, CHR 0xD0, CHR 0xB5,
     CHR 0xD1, CHR 0x80, CHR 0xD0, CHR 0xB6, CHR 0xD0, CHR 0xB8, CHR 0xD0, CHR 0xB2,
     CHR 0xD0, CHR 0xB0, CHR 0xD0, CHR 0xB5, CHR 0xD0, CHR 0xBC, CHR 0xD1, CHR 0x8B,
     CHR 0xD0, CHR 0xB9, CHR 0x20, CHR 0xD1, CHR 0x82, CHR 0xD0, CHR 0xB8, CHR 0xD0,
     CHR 0xBF, CHR 0x20, CHR 0xD0, CHR 0xBC, CHR 0xD0, CHR 0xB5, CHR 0xD0, CHR 0xB4,
     CHR 0xD0, CHR 0xB8, CHR 0xD0, CHR 0xB0, CHR 0x2E]"

definition txt_product :: string where
  "txt_product =
    [CHR 0xD0, CHR 0x9F, CHR 0xD1, CHR 0x80, CHR 0xD0, CHR 0xBE, CHR 0xD0, CHR 0xB4,
     CHR 0xD1, CHR 0x83, CHR 0xD0, CHR 0xBA, CHR 0xD1, CHR 0x82, CHR 0x20, CHR 0x49,
     CHR 0x44, CHR 0x3A, CHR 0x20]"

definition txt_dialog_with :: string where
  "txt_dialog_with =
    [CHR 0xD0, CHR 0x94, CHR 0xD0, CHR 0xB8, CHR 0xD0, CHR 0xB0, CHR 0xD0, CHR 0xBB,
     CHR 0xD0, CHR 0xBE, CHR 0xD0, CHR 0xB3, CHR 0x20, CHR 0xD1, CHR 0x81, CHR 0x20,
     CHR 0xD0, CHR 0xBF, CHR 0xD0, CHR 0xBE, CHR 0xD0, CHR 0xBB, CHR 0xD1, CHR 0x8C,
     CHR 0xD0, CHR 0xB7, CHR 0xD0, CHR 0xBE, CHR 0xD0, CHR 0xB2, CHR 0xD0, CHR 0xB0,
     CHR 0xD1, CHR 0x82, CHR 0xD0, CHR 0xB5, CHR 0xD0, CHR 0xBB, CHR 0xD0, CHR 0xB5,
     CHR 0xD0, CHR 0xBC, CHR 0x20]"

definition txt_ended :: string where
  "txt_ended =
    [CHR 0x20, CHR 0xD0, CHR 0xB7, CHR 0xD0, CHR 0xB0, CHR 0xD0, CHR 0xB2, CHR 0xD0,
     CHR 0xB5, CHR 0xD1, CHR 0x80, CHR 0xD1, CHR 0x88, CHR 0xD0, CHR 0xB5, CHR 0xD0,
     CHR 0xBD, CHR 0x2E]"

definition txt_need_help :: string where
  "txt_need_help =
    [CHR 0xD0, CHR 0x9D, CHR 0xD1, CHR 0x83, CHR 0xD0, CHR 0xB6, CHR 0xD0, CHR 0xBD,
     CHR 0xD0, CHR 0xB0, CHR 0x20, CHR 0xD0, CHR 0xBF, CHR 0xD0, CHR 0xBE, CHR 0xD0,
     CHR 0xBC, CHR 0xD0, CHR 0xBE, CHR 0xD1, CHR 0x89, CHR 0xD1, CHR 0x8C]"

definition txt_more_questions :: string where
  "txt_more_questions =
    [CHR 0xD0, CHR 0x95, CHR 0xD1, CHR 0x81, CHR 0xD0, CHR 0xBB, CHR 0xD0, CHR 0xB8,
     CHR 0x20, CHR 0xD1, CHR 0x83, CHR 0x20, CHR 0xD0, CHR 0xB2, CHR 0xD0, CHR 0xB0,
     CHR 0xD1, CHR 0x81, CHR 0x20, CHR 0xD0, CHR 0xB5, CHR 0xD1, CHR 0x81, CHR 0xD1,
     CHR 0x82, CHR 0xD1, CHR 0x8C, CHR 0x20, CHR 0xD0, CHR 0xB5, CHR 0xD1, CHR 0x89,
     CHR 0xD0, CHR 0xB5, CHR 0x20, CHR 0xD0, CHR 0xB2, CHR 0xD0, CHR 0xBE, CHR 0xD0,
     CHR 0xBF, CHR 0xD1, CHR 0x80, CHR 0xD0, CHR 0xBE, CHR 0xD1, CHR 0x81, CHR 0xD1,
     CHR 0x8B, CHR 0x2C, CHR 0x20, CHR 0xD0, CHR 0xBD, CHR 0xD0, CHR 0xB0, CHR 0xD0,
     CHR 0xB6, CHR 0xD0, CHR 0xBC, CHR 0xD0, CHR 0xB8, CHR 0xD1, CHR 0x82, CHR 0xD0,
     CHR 0xB5, CHR 0x20, CHR 0x27, CHR 0xD0, CHR 0x9D, CHR 0xD1, CHR 0x83, CHR 0xD0,
     CHR 0xB6, CHR 0xD0, CHR 0xBD, CHR 0xD0, CHR 0xB0, CHR 0x20, CHR 0xD0, CHR 0xBF,
     CHR 0xD0, CHR 0xBE, CHR 0xD0, CHR 0xBC, CHR 0xD0, CHR 0xBE, CHR 0xD1, CHR 0x89,
     CHR 0xD1, CHR 0x8C, CHR 0x27, CHR 0x2E]"

definition txt_blocked :: string where
  "txt_blocked =
    [CHR 0x20, CHR 0xD0, CHR 0xB7, CHR 0xD0, CHR 0xB0, CHR 0xD0, CHR 0xB1, CHR 0xD0,
     CHR 0xBB, CHR 0xD0, CHR 0xBE, CHR 0xD0, CHR 0xBA, CHR 0xD0, CHR 0xB8, CHR 0xD1,
     CHR 0x80, CHR 0xD0, CHR 0xBE, CHR 0xD0, CHR 0xB2, CHR 0xD0, CHR 0xB0, CHR 0xD0,
     CHR 0xBD, CHR 0x2E]"

definition txt_unblocked :: string where
  "txt_unblocked =
    [CHR 0x20, CHR 0xD1, CHR 0x80, CHR 0xD0, CHR 0xB0, CHR 0xD0, CHR 0xB7, CHR 0xD0,
     CHR 0xB1, CHR 0xD0, CHR 0xBB, CHR 0xD0, CHR 0xBE, CHR 0xD0, CHR 0xBA, CHR 0xD0,
     CHR 0xB8, CHR 0xD1, CHR 0x80, CHR 0xD0, CHR 0xBE, CHR 0xD0, CHR 0xB2, CHR 0xD0,
     CHR 0xB0, CHR 0xD0, CHR 0xBD, CHR 0x2E]"

definition txt_not_blocked :: string where
  "txt_not_blocked =
    [CHR 0x20, CHR 0xD0, CHR 0xBD, CHR 0xD0, CHR 0xB5, CHR 0x20, CHR 0xD0, CHR 0xB1,
     CHR 0xD1, CHR 0x8B, CHR 0xD0, CHR 0xBB, CHR 0x20, CHR 0xD0, CHR 0xB7, CHR 0xD0,
     CHR 0xB0, CHR 0xD0, CHR 0xB1, CHR 0xD0, CHR 0xBB, CHR 0xD0, CHR 0xBE, CHR 0xD0,
     CHR 0xBA, CHR 0xD0, CHR 0xB8, CHR 0xD1, CHR 0x80, CHR 0xD0, CHR 0xBE, CHR 0xD0,
     CHR 0xB2, CHR 0xD0, CHR 0xB0, CHR 0xD0, CHR 0xBD, CHR 0x2E]"

section \<open>State\<close>

text \<open>
  \<open>bot_data\<close> is the document in bot_data.json: \<open>active_dialogs\<close> (the Session Store),
  \<open>blocked_users\<close> (the Block List) and \<open>dialog_messages\<close> (the Thread Ledger).
  \<open>load_data\<close> and \<open>save_data\<close> read and replace the whole document; a missing file
  reads as the empty document. The file is taken to be readable and writable: the two
  \<open>except\<close> branches that log a failed read or write are not modelled.

  The \<open>world\<close> holds, beside the document, the two gauges, the records written to the
  logger, and the calls made to the transport, oldest first.
\<close>

record bot_data =
  active_dialogs :: "string \<rightharpoonup> string"
  blocked_users :: "int list"
  dialog_messages :: "string \<rightharpoonup> int list"

datatype level = INFO | WARNING | ERROR

datatype button = UrlButton string string | CallbackButton string string

type_synonym keyboard = "button list list"

datatype call =
    GetChat int
  | AnswerCallback string
  | SendMessage int string "keyboard option"
  | SendPhoto int string string keyboard
  | SendDocument int string string keyboard
  | DeleteMessage int int

record world =
  data_file :: bot_data
  ACTIVE_DIALOGS :: int
  BLOCKED_USERS :: int
  logged :: "(level \<times> string) list"
  calls :: "call list"

definition empty_data :: bot_data where
  "empty_data = \<lparr>active_dialogs = Map.empty, blocked_users = [], dialog_messages = Map.empty\<rparr>"

definition load_data :: "world \<Rightarrow> bot_data" where
  "load_data w = data_file w"

definition save_data :: "bot_data \<Rightarrow> world \<Rightarrow> world" where
  "save_data d w = w\<lparr>data_file := d\<rparr>"

definition log :: "level \<Rightarrow> string \<Rightarrow> world \<Rightarrow> world" where
  "log lvl msg w = w\<lparr>logged := logged w @ [(lvl, msg)]\<rparr>"

definition get_active_dialogs :: "world \<Rightarrow> (string \<rightharpoonup> string)" where
  "get_active_dialogs w = active_dialogs (load_data w)"

definition get_blocked_users :: "world \<Rightarrow> int set" where
  "get_blocked_users w = set (blocked_users (load_data w))"

definition get_dialog_messages :: "int \<Rightarrow> world \<Rightarrow> int list" where
  "get_dialog_messages user_id w =
     (case dialog_messages (load_data w) (py_str user_id) of None \<Rightarrow> [] | Some ms \<Rightarrow> ms)"

subsection \<open>The store functions\<close>

definition add_active_dialog :: "int \<Rightarrow> string \<Rightarrow> world \<Rightarrow> world" where
  "add_active_dialog user_id product_id w =
     (let data = load_data w;
          w1 = (if \<not> in_keys (IntKey user_id) (active_dialogs data)
                then w\<lparr>ACTIVE_DIALOGS := ACTIVE_DIALOGS w + 1\<rparr> else w);
          data1 = data\<lparr>active_dialogs := (active_dialogs data)(py_str user_id \<mapsto> product_id)\<rparr>
      in log INFO (''Added active dialog: user ID '' @ py_str user_id
                   @ '', product ID '' @ product_id)
           (save_data data1 w1))"

definition remove_active_dialog :: "int \<Rightarrow> world \<Rightarrow> world" where
  "remove_active_dialog user_id w =
     (let data = load_data w
      in if in_keys (StrKey (py_str user_id)) (active_dialogs data) then
           log INFO (''Removed active dialog with user ID: '' @ py_str user_id)
             (save_data (data\<lparr>active_dialogs := (active_dialogs data)(py_str user_id := None)\<rparr>)
                (w\<lparr>ACTIVE_DIALOGS := ACTIVE_DIALOGS w - 1\<rparr>))
         else w)"

definition add_blocked_user :: "int \<Rightarrow> world \<Rightarrow> world" where
  "add_blocked_user user_id w =
     (let data = load_data w
      in if user_id \<notin> set (blocked_users data) then
           log INFO (''User ID: '' @ py_str user_id @ '' has been blocked'')
             (save_data (data\<lparr>blocked_users := blocked_users data @ [user_id]\<rparr>)
                (w\<lparr>BLOCKED_USERS := BLOCKED_USERS w + 1\<rparr>))
         else w)"

definition remove_blocked_user :: "int \<Rightarrow> world \<Rightarrow> world" where
  "remove_blocked_user user_id w =
     (let data = load_data w
      in if user_id \<in> set (blocked_users data) then
           log INFO (''User ID: '' @ py_str user_id @ '' has been unblocked'')
             (save_data (data\<lparr>blocked_users := remove1 user_id (blocked_users data)\<rparr>)
                (w\<lparr>BLOCKED_USERS := BLOCKED_USERS w - 1\<rparr>))
         else w)"

definition add_dialog_message :: "int \<Rightarrow> int \<Rightarrow> world \<Rightarrow> world" where
  "add_dialog_message user_id message_id w =
     (let data = load_data w;
          msgs = (if \<not> in_keys (StrKey (py_str user_id)) (dialog_messages data) then []
                  else (case dialog_messages data (py_str user_id) of
                          None \<Rightarrow> [] | Some ms \<Rightarrow> ms))
      in if message_id \<notin> set msgs then
           log INFO (''Added message ID: '' @ py_str message_id
                     @ '' to dialog with user ID: '' @ py_str user_id)
             (save_data (data\<lparr>dialog_messages :=
                                (dialog_messages data)(py_str user_id \<mapsto> msgs @ [message_id])\<rparr>) w)
         else w)"

definition remove_dialog_messages :: "int \<Rightarrow> world \<Rightarrow> world" where
  "remove_dialog_messages user_id w =
     (let data = load_data w
      in if in_keys (StrKey (py_str user_id)) (dialog_messages data) then
           log INFO (''Removed all messages from dialog with user ID: '' @ py_str user_id)
             (save_data (data\<lparr>dialog_messages :=
                                (dialog_messages data)(py_str user_id := None)\<rparr>) w)
         else w)"

section \<open>The transport and the events\<close>

text \<open>
  \<open>ADMIN_ID\<close> comes from config.py, which is not part of the sources: it is a parameter.
  The transport (aiogram's \<open>Bot\<close> and the callback query's \<open>answer\<close>) is a parameter too:
  each of its calls may succeed or raise, and what it does may depend on every call made
  before, which it is given as the first argument. \<open>None\<close> from \<open>get_chat\<close>, \<open>send_message\<close>,
  \<open>send_photo\<close>, \<open>send_document\<close> and \<open>False\<close> from \<open>answer\<close> mean that the call raises;
  \<open>delete_message\<close> returns the text of the exception it raises, or \<open>None\<close> when it
  succeeds. A send returns the \<open>message_id\<close> of the message it created.
\<close>

record env =
  ADMIN_ID :: int
  get_chat :: "call list \<Rightarrow> int \<Rightarrow> string option"
  answer :: "call list \<Rightarrow> string \<Rightarrow> bool"
  send_message :: "call list \<Rightarrow> int \<Rightarrow> string \<Rightarrow> keyboard option \<Rightarrow> int option"
  send_photo :: "call list \<Rightarrow> int \<Rightarrow> string \<Rightarrow> string \<Rightarrow> keyboard \<Rightarrow> int option"
  send_document :: "call list \<Rightarrow> int \<Rightarrow> string \<Rightarrow> string \<Rightarrow> keyboard \<Rightarrow> int option"
  delete_message :: "call list \<Rightarrow> int \<Rightarrow> int \<Rightarrow> string option"

record user =
  uid :: int
  full_name :: string

record replied =
  replied_text :: "string option"

text \<open>
  A message as the handlers read it: \<open>msg_photo\<close> holds the \<open>file_id\<close> of each size of the
  photo, \<open>msg_document\<close> the \<open>file_id\<close> of the document. The sender is always present, as it
  is in a private chat.
\<close>

record message =
  msg_id :: int
  msg_from :: user
  msg_text :: "string option"
  msg_caption :: "string option"
  msg_photo :: "string list option"
  msg_document :: "string option"
  msg_reply_to :: "replied option"

record callback_query =
  cq_from :: user
  cq_data :: "string option"

text \<open>
  A handler returns \<open>Inr ()\<close> when it returns, \<open>Inl e\<close> when it raises \<open>e\<close>, and the world
  as it is at that moment: what was saved and sent before an exception stays.
\<close>

type_synonym 'a result = "(exn + 'a) \<times> world"

definition and_then :: "'a result \<Rightarrow> ('a \<Rightarrow> world \<Rightarrow> 'b result) \<Rightarrow> 'b result" where
  "and_then r k = (case r of (Inl e, w) \<Rightarrow> (Inl e, w) | (Inr x, w) \<Rightarrow> k x w)"

definition bot_get_chat :: "env \<Rightarrow> int \<Rightarrow> world \<Rightarrow> string result" where
  "bot_get_chat env chat w =
     (case get_chat env (calls w) chat of
        None \<Rightarrow> Inl TelegramError
      | Some first_name \<Rightarrow> Inr first_name,
      w\<lparr>calls := calls w @ [GetChat chat]\<rparr>)"

definition cq_answer :: "env \<Rightarrow> string \<Rightarrow> world \<Rightarrow> unit result" where
  "cq_answer env txt w =
     (if answer env (calls w) txt then Inr () else Inl TelegramError,
      w\<lparr>calls := calls w @ [AnswerCallback txt]\<rparr>)"

definition bot_send_message :: "env \<Rightarrow> int \<Rightarrow> string \<Rightarrow> keyboard option \<Rightarrow> world \<Rightarrow> int result" where
  "bot_send_message env chat txt markup w =
     (case send_message env (calls w) chat txt markup of
        None \<Rightarrow> Inl TelegramError
      | Some message_id \<Rightarrow> Inr message_id,
      w\<lparr>calls := calls w @ [SendMessage chat txt markup]\<rparr>)"

definition bot_send_photo :: "env \<Rightarrow> int \<Rightarrow> string \<Rightarrow> string \<Rightarrow> keyboard \<Rightarrow> world \<Rightarrow> int result" where
  "bot_send_photo env chat file_id cap markup w =
     (case send_photo env (calls w) chat file_id cap markup of
        None \<Rightarrow> Inl TelegramError
      | Some message_id \<Rightarrow> Inr message_id,
      w\<lparr>calls := calls w @ [SendPhoto chat file_id cap markup]\<rparr>)"

definition bot_send_document :: "env \<Rightarrow> int \<Rightarrow> string \<Rightarrow> string \<Rightarrow> keyboard \<Rightarrow> world \<Rightarrow> int result" where
  "bot_send_document env chat file_id cap markup w =
     (case send_document env (calls w) chat file_id cap markup of
        None \<Rightarrow> Inl TelegramError
      | Some message_id \<Rightarrow> Inr message_id,
      w\<lparr>calls := calls w @ [SendDocument chat file_id cap markup]\<rparr>)"

section \<open>The handlers\<close>

subsection \<open>need_help\<close>

definition need_help_filter :: "callback_query \<Rightarrow> exn + bool" where
  "need_help_filter c =
     (case cq_data c of None \<Rightarrow> Inl AttributeError
      | Some d \<Rightarrow> Inr (startswith d ''need_help_''))"

definition need_help :: "env \<Rightarrow> callback_query \<Rightarrow> world \<Rightarrow> unit result" where
  "need_help env callback_query w =
     (let user_id = uid (cq_from callback_query);
          user_name = full_name (cq_from callback_query)
      in case cq_data callback_query of
           None \<Rightarrow> (Inl AttributeError, w)
         | Some d \<Rightarrow>
            (let product_id = py_replace ''need_help_'' [] d
             in if user_id \<in> get_blocked_users w \<or> user_id = ADMIN_ID env then
                  (Inr (), log WARNING (''User '' @ user_name @ '' ('' @ py_str user_id
                      @ '') tried to request help but was blocked or already in a dialog.'') w)
                else
                  and_then (cq_answer env (txt_ask @ ''.'') w) (\<lambda>_ w.
                  and_then (bot_send_message env user_id txt_ask None w) (\<lambda>_ w.
                  (Inr (), log INFO (''User '' @ user_name @ '' ('' @ py_str user_id
                      @ '') requested help. Product ID: '' @ product_id)
                     (if user_id \<noteq> ADMIN_ID env then add_active_dialog user_id product_id w
                      else w))))))"

subsection \<open>forward_to_admin\<close>

text \<open>
  The filter is \<open>str(id) in keys and (message.photo or not message.text.startswith("/"))\<close>:
  \<open>and\<close> and \<open>or\<close> evaluate their right operand only when the left one does not decide, and
  \<open>message.text.startswith\<close> raises AttributeError when \<open>message.text\<close> is \<open>None\<close>.
\<close>

definition truthy_photo :: "string list option \<Rightarrow> bool" where
  "truthy_photo p = (case p of None \<Rightarrow> False | Some sizes \<Rightarrow> sizes \<noteq> [])"

definition truthy_text :: "string option \<Rightarrow> bool" where
  "truthy_text t = (case t of None \<Rightarrow> False | Some s \<Rightarrow> s \<noteq> [])"

definition forward_to_admin_filter :: "message \<Rightarrow> world \<Rightarrow> exn + bool" where
  "forward_to_admin_filter message w =
     (if in_keys (StrKey (py_str (uid (msg_from message)))) (get_active_dialogs w) then
        (if truthy_photo (msg_photo message) then Inr True
         else case msg_text message of
                None \<Rightarrow> Inl AttributeError
              | Some t \<Rightarrow> Inr (\<not> startswith t ''/''))
      else Inr False)"

definition admin_keyboard :: "int \<Rightarrow> keyboard" where
  "admin_keyboard user_id =
     [[CallbackButton txt_finish (''end_dialog_'' @ py_str user_id)],
      [CallbackButton txt_block (''block_user_'' @ py_str user_id)],
      [CallbackButton txt_unblock (''unblock_user_'' @ py_str user_id)]]"

definition forward_to_admin :: "env \<Rightarrow> message \<Rightarrow> world \<Rightarrow> unit result" where
  "forward_to_admin env message w =
     (let user_id = uid (msg_from message);
          user_name = full_name (msg_from message);
          product_id = (case get_active_dialogs w (py_str user_id) of
                          None \<Rightarrow> txt_unknown | Some p \<Rightarrow> p)
      in if user_id \<in> get_blocked_users w then
           (Inr (), log WARNING (''User ID: '' @ py_str user_id @ '', Name: '' @ user_name
                                 @ '' tried to send a message but was blocked.'') w)
         else
           (let admin_message = txt_message_from @ user_name @ '' (ID: '' @ py_str user_id
                                @ '')'' @ [CHR 0x0A] @ txt_product_id @ product_id
                                @ [CHR 0x0A, CHR 0x0A];
                cap = (if truthy_text (msg_caption message)
                       then (case msg_caption message of None \<Rightarrow> [] | Some c \<Rightarrow> c) else [])
            in if truthy_text (msg_text message) then
                 and_then (bot_send_message env (ADMIN_ID env)
                             (admin_message @ (case msg_text message of None \<Rightarrow> [] | Some t \<Rightarrow> t))
                             (Some (admin_keyboard user_id)) w) (\<lambda>sent_message_id w.
                 (Inr (), log INFO (''Text message from user ID: '' @ py_str user_id
                     @ '', Name: '' @ user_name @ '', Product ID: '' @ product_id
                     @ '' forwarded to admin.'')
                    (add_dialog_message user_id sent_message_id w)))
               else if truthy_photo (msg_photo message) then
                 and_then (bot_send_photo env (ADMIN_ID env)
                             (last (case msg_photo message of None \<Rightarrow> [] | Some sizes \<Rightarrow> sizes))
                             (admin_message @ cap) (admin_keyboard user_id) w) (\<lambda>sent_message_id w.
                 (Inr (), log INFO (''Photo from user ID: '' @ py_str user_id
                     @ '', Name: '' @ user_name @ '', Product ID: '' @ product_id
                     @ '' forwarded to admin.'')
                    (add_dialog_message user_id sent_message_id w)))
               else (case msg_document message of
                 Some file_id \<Rightarrow>
                   and_then (bot_send_document env (ADMIN_ID env) file_id
                               (admin_message @ cap) (admin_keyboard user_id) w) (\<lambda>sent_message_id w.
                   (Inr (), log INFO (''Document from user ID: '' @ py_str user_id
                       @ '', Name: '' @ user_name @ '', Product ID: '' @ product_id
                       @ '' forwarded to admin.'')
                      (add_dialog_message user_id sent_message_id w)))
               | None \<Rightarrow>
                   and_then (bot_send_message env (ADMIN_ID env)
                               (txt_user @ user_name @ '' (ID: '' @ py_str user_id @ '')''
                                @ txt_sent_unsupported @ [CHR 0x0A] @ txt_product @ product_id)
                               None w) (\<lambda>_ w.
                   (Inr (), log WARNING (''Unsupported media type from user ID: ''
                       @ py_str user_id @ '', Name: '' @ user_name @ '', Product ID: ''
                       @ product_id @ ''.'') w)))))"

text \<open>
  What the dispatcher does with a message at this registration: it evaluates the filter,
  an exception of the filter ends the processing of the message, and the handler runs
  when the filter holds. \<open>Inr False\<close>: the handler did not take the message.
\<close>

definition dispatch_forward_to_admin :: "env \<Rightarrow> message \<Rightarrow> world \<Rightarrow> bool result" where
  "dispatch_forward_to_admin env message w =
     (case forward_to_admin_filter message w of
        Inl e \<Rightarrow> (Inl e, w)
      | Inr False \<Rightarrow> (Inr False, w)
      | Inr True \<Rightarrow> and_then (forward_to_admin env message w) (\<lambda>_ w. (Inr True, w)))"

subsection \<open>admin_reply\<close>

definition admin_reply_filter :: "env \<Rightarrow> message \<Rightarrow> bool" where
  "admin_reply_filter env message =
     (uid (msg_from message) = ADMIN_ID env \<and> msg_reply_to message \<noteq> None)"

definition reply_user_id :: "string \<Rightarrow> exn + int" where
  "reply_user_id replied_message =
     bind_exn (py_index (py_split ''(ID: '' replied_message) 1) (\<lambda>tail.
     bind_exn (py_index (py_split '')'' tail) 0) py_int)"

definition reply_user_name :: "string \<Rightarrow> exn + string" where
  "reply_user_name replied_message =
     bind_exn (py_index (py_split txt_message_from replied_message) 1) (\<lambda>tail.
     py_index (py_split '' (ID:'' tail) 0)"

definition admin_reply :: "env \<Rightarrow> message \<Rightarrow> world \<Rightarrow> unit result" where
  "admin_reply env message w =
     (case msg_reply_to message of
        None \<Rightarrow> (Inl AttributeError, w)
      | Some r \<Rightarrow>
         (case replied_text r of
            None \<Rightarrow> (Inl AttributeError, w)
          | Some replied_message \<Rightarrow>
             and_then (reply_user_id replied_message, w) (\<lambda>user_id w.
             and_then (reply_user_name replied_message, w) (\<lambda>user_name w.
             (case msg_text message of
                None \<Rightarrow> (Inl ValidationError, add_dialog_message user_id (msg_id message) w)
              | Some t \<Rightarrow>
                 and_then (bot_send_message env user_id t None
                             (add_dialog_message user_id (msg_id message) w)) (\<lambda>_ w.
                 (Inr (), log INFO (''Admin replied to message from user ID: ''
                     @ py_str user_id @ '', Name: '' @ user_name @ ''.'') w)))))))"

subsection \<open>end_dialog, block_user, unblock_user\<close>

text \<open>The three read the user from the button's data: \<open>int(data.split("_")[2])\<close>.\<close>

definition callback_user_id :: "callback_query \<Rightarrow> exn + int" where
  "callback_user_id c =
     (case cq_data c of
        None \<Rightarrow> Inl AttributeError
      | Some d \<Rightarrow> bind_exn (py_index (py_split ''_'' d) 2) py_int)"

text \<open>
  The loop of \<open>end_dialog\<close>: one \<open>delete_message\<close> for each recorded handle; an exception is
  caught, logged as an error, and the loop goes on.
\<close>

fun delete_messages :: "env \<Rightarrow> int list \<Rightarrow> world \<Rightarrow> world" where
  "delete_messages env [] w = w"
| "delete_messages env (message_id # rest) w =
     delete_messages env rest
       (case delete_message env (calls w) (ADMIN_ID env) message_id of
          None \<Rightarrow> w\<lparr>calls := calls w @ [DeleteMessage (ADMIN_ID env) message_id]\<rparr>
        | Some e \<Rightarrow>
            log ERROR (''Failed to delete message '' @ py_str message_id @ '': '' @ e)
              (w\<lparr>calls := calls w @ [DeleteMessage (ADMIN_ID env) message_id]\<rparr>))"

definition end_dialog :: "env \<Rightarrow> callback_query \<Rightarrow> world \<Rightarrow> unit result" where
  "end_dialog env callback_query w =
     and_then (callback_user_id callback_query, w) (\<lambda>user_id w.
     and_then (bot_get_chat env user_id w) (\<lambda>user_name w.
     (let dialog_messages = get_dialog_messages user_id w;
          w1 = (if dialog_messages \<noteq> []
                then remove_dialog_messages user_id (delete_messages env dialog_messages w)
                else w)
      in and_then (cq_answer env (txt_dialog_with @ user_name @ txt_ended) w1) (\<lambda>_ w.
         (let w2 = (if in_keys (StrKey (py_str user_id)) (get_active_dialogs w)
                    then remove_active_dialog user_id w else w);
              keyboard = [[CallbackButton txt_need_help ''need_help'']]
          in and_then (bot_send_message env user_id txt_more_questions (Some keyboard) w2)
               (\<lambda>_ w.
               (Inr (), log INFO (''Dialog with user ID: '' @ py_str user_id @ '', Name: ''
                                  @ user_name @ '' has ended.'') w)))))))"

definition block_user :: "env \<Rightarrow> callback_query \<Rightarrow> world \<Rightarrow> unit result" where
  "block_user env callback_query w =
     and_then (callback_user_id callback_query, w) (\<lambda>user_id w.
     and_then (bot_get_chat env user_id w) (\<lambda>user_name w.
     and_then (cq_answer env (txt_user @ user_name @ txt_blocked) w) (\<lambda>_ w.
     (let w1 = add_blocked_user user_id w;
          w2 = (if in_keys (StrKey (py_str user_id)) (get_active_dialogs w1)
                then remove_active_dialog user_id w1 else w1)
      in (Inr (), log INFO (''User ID: '' @ py_str user_id @ '', Name: '' @ user_name
                            @ '' has been blocked.'') w2)))))"

definition unblock_user :: "env \<Rightarrow> callback_query \<Rightarrow> world \<Rightarrow> unit result" where
  "unblock_user env callback_query w =
     and_then (callback_user_id callback_query, w) (\<lambda>user_id w.
     and_then (bot_get_chat env user_id w) (\<lambda>user_name w.
     if user_id \<in> get_blocked_users w then
       and_then (cq_answer env (txt_user @ user_name @ txt_unblocked)
                   (remove_blocked_user user_id w)) (\<lambda>_ w.
       (Inr (), log INFO (''User ID: '' @ py_str user_id @ '', Name: '' @ user_name
                          @ '' has been unblocked.'') w))
     else
       and_then (cq_answer env (txt_user @ user_name @ txt_not_blocked) w) (\<lambda>_ w.
       (Inr (), log WARNING (''Attempt to unblock user ID: '' @ py_str user_id @ '', Name: ''
                             @ user_name @ '', who was not blocked.'') w))))"

subsection \<open>The dispatch of a callback query\<close>

text \<open>
  The handlers of callback queries are tried in the order of their registration; the first
  whose filter holds runs, and an exception of a filter ends the processing. Each filter
  is \<open>c.data.startswith(...)\<close>.
\<close>

datatype handler = NeedHelp | EndDialog | BlockUser | UnblockUser

definition dispatch_callback_query :: "env \<Rightarrow> callback_query \<Rightarrow> world \<Rightarrow> handler option result" where
  "dispatch_callback_query env c w =
     (case cq_data c of
        None \<Rightarrow> (Inl AttributeError, w)
      | Some d \<Rightarrow>
          if startswith d ''need_help_'' then
            and_then (need_help env c w) (\<lambda>_ w. (Inr (Some NeedHelp), w))
          else if startswith d ''end_dialog_'' then
            and_then (end_dialog env c w) (\<lambda>_ w. (Inr (Some EndDialog), w))
          else if startswith d ''block_user_'' then
            and_then (block_user env c w) (\<lambda>_ w. (Inr (Some BlockUser), w))
          else if startswith d ''unblock_user_'' then
            and_then (unblock_user env c w) (\<lambda>_ w. (Inr (Some UnblockUser), w))
          else (Inr None, w))"

section \<open>Concrete inputs\<close>

text \<open>
  The inputs at which the results below are evaluated. \<open>env_ok\<close> is a transport on which every
  call succeeds and a send returns a fresh \<open>message_id\<close>; \<open>world_empty\<close> is the bot before
  its first event: no bot_data.json, both gauges at 0.
\<close>

definition button_data :: "button \<Rightarrow> string option" where
  "button_data b = (case b of UrlButton t u \<Rightarrow> None | CallbackButton t d \<Rightarrow> Some d)"

definition env_ok :: env where
  "env_ok = \<lparr>ADMIN_ID = 1,
              get_chat = (\<lambda>h c. Some ''Ann''),
              answer = (\<lambda>h t. True),
              send_message = (\<lambda>h c t m. Some (100 + int (length h))),
              send_photo = (\<lambda>h c f t m. Some (100 + int (length h))),
              send_document = (\<lambda>h c f t m. Some (100 + int (length h))),
              delete_message = (\<lambda>h c m. None)\<rparr>"

definition world_empty :: world where
  "world_empty = \<lparr>data_file = empty_data, ACTIVE_DIALOGS = 0, BLOCKED_USERS = 0,
                   logged = [], calls = []\<rparr>"

definition ann :: user where
  "ann = \<lparr>uid = 42, full_name = ''Ann''\<rparr>"

definition press_need_help :: callback_query where
  "press_need_help = \<lparr>cq_from = ann, cq_data = Some ''need_help_1''\<rparr>"

definition world_session :: world where
  "world_session = snd (need_help env_ok press_need_help world_empty)"

definition document_message :: message where
  "document_message = \<lparr>msg_id = 5, msg_from = ann, msg_text = None, msg_caption = None,
                         msg_photo = None, msg_document = Some ''file-1'',
                         msg_reply_to = None\<rparr>"

definition operator :: user where
  "operator = \<lparr>uid = 1, full_name = ''Olga''\<rparr>"

definition press_block :: callback_query where
  "press_block = \<lparr>cq_from = operator, cq_data = Some ''block_user_42''\<rparr>"

definition press_unblock :: callback_query where
  "press_unblock = \<lparr>cq_from = operator, cq_data = Some ''unblock_user_42''\<rparr>"

definition text_message :: message where
  "text_message = \<lparr>msg_id = 6, msg_from = ann, msg_text = Some ''hello'', msg_caption = None,
                     msg_photo = None, msg_document = None, msg_reply_to = None\<rparr>"

definition is_delete :: "call \<Rightarrow> bool" where
  "is_delete c = (case c of DeleteMessage chat message_id \<Rightarrow> True | _ \<Rightarrow> False)"

definition env_flaky :: env where
  "env_flaky = env_ok\<lparr>delete_message := (\<lambda>h c m. if m = 101 then Some ''gone'' else None)\<rparr>"

definition press_end :: callback_query where
  "press_end = \<lparr>cq_from = operator, cq_data = Some ''end_dialog_42''\<rparr>"

definition world_thread :: world where
  "world_thread = add_dialog_message 42 102 (add_dialog_message 42 101 world_session)"

definition reply_to_hello :: message where
  "reply_to_hello = \<lparr>msg_id = 9, msg_from = operator, msg_text = Some ''hi'', msg_caption = None,
                       msg_photo = None, msg_document = None,
                       msg_reply_to = Some \<lparr>replied_text = Some ''hello''\<rparr>\<rparr>"

definition reply_to_photo :: message where
  "reply_to_photo = \<lparr>msg_id = 9, msg_from = operator, msg_text = Some ''hi'', msg_caption = None,
                       msg_photo = None, msg_document = None,
                       msg_reply_to = Some \<lparr>replied_text = None\<rparr>\<rparr>"

definition forwarded_hello :: string where
  "forwarded_hello = txt_message_from @ ''Ann'' @ '' (ID: '' @ py_str 42 @ '')'' @ [CHR 0x0A]
                     @ txt_product_id @ ''1'' @ [CHR 0x0A, CHR 0x0A] @ ''hello''"

definition reply_hi :: message where
  "reply_hi = \<lparr>msg_id = 9, msg_from = operator, msg_text = Some ''hi'', msg_caption = None,
                 msg_photo = None, msg_document = None,
                 msg_reply_to = Some \<lparr>replied_text = Some forwarded_hello\<rparr>\<rparr>"

definition tagged_user :: user where
  "tagged_user = \<lparr>uid = 42, full_name = ''x (ID: 7)''\<rparr>"

definition tagged_message :: message where
  "tagged_message = \<lparr>msg_id = 6, msg_from = tagged_user, msg_text = Some ''hello'',
                       msg_caption = None, msg_photo = None, msg_document = None,
                       msg_reply_to = None\<rparr>"

definition forwarded_tagged :: string where
  "forwarded_tagged = txt_message_from @ ''x (ID: 7)'' @ '' (ID: '' @ py_str 42 @ '')''
                      @ [CHR 0x0A] @ txt_product_id @ ''1'' @ [CHR 0x0A, CHR 0x0A] @ ''hello''"

definition reply_tagged :: message where
  "reply_tagged = \<lparr>msg_id = 9, msg_from = operator, msg_text = Some ''hi'', msg_caption = None,
                     msg_photo = None, msg_document = None,
                     msg_reply_to = Some \<lparr>replied_text = Some forwarded_tagged\<rparr>\<rparr>"

section \<open>Facts about \<open>str\<close>, \<open>int\<close> and \<open>split\<close>\<close>

lemma digit_char_ok: "n < 10 \<Longrightarrow> is_digit (char_of (48 + n)) \<and> digit_val (char_of (48 + n)) = n"
  by (simp add: is_digit_def digit_val_def)

lemma str_nat_digits: "c \<in> set (str_nat n) \<Longrightarrow> is_digit c"
proof (induction n rule: str_nat.induct)
  case (1 n)
  show ?case
  proof (cases "n < 10")
    case True
    with "1.prems" show ?thesis by (simp add: str_nat.simps[of n] digit_char_ok)
  next
    case False
    with "1.prems" "1.IH" show ?thesis
      by (auto simp: str_nat.simps[of n] digit_char_ok)
  qed
qed

lemma str_nat_ne: "str_nat n \<noteq> []"
  by (subst str_nat.simps) simp

lemma digits_val_digit:
  "n < 10 \<Longrightarrow> digits_val acc (char_of (48 + n) # ys) = digits_val (10 * acc + n) ys"
  using digit_char_ok [of n] by simp

lemma digits_val_str_nat:
  "digits_val acc (str_nat n @ ys) = digits_val (acc * 10 ^ length (str_nat n) + n) ys"
proof (induction n arbitrary: acc ys rule: str_nat.induct)
  case (1 n)
  show ?case
  proof (cases "n < 10")
    case True
    have e: "str_nat n = [char_of (48 + n)]" using True by (subst str_nat.simps) simp
    have a: "digits_val acc (str_nat n @ ys) = digits_val (10 * acc + n) ys"
      by (simp only: e append.simps digits_val_digit [OF True])
    have b: "acc * 10 ^ length (str_nat n) + n = 10 * acc + n" by (simp add: e)
    show ?thesis unfolding b by (rule a)
  next
    case False
    have s: "str_nat n = str_nat (n div 10) @ [char_of (48 + n mod 10)]"
      using False by (subst str_nat.simps) simp
    have "digits_val acc (str_nat n @ ys)
          = digits_val acc (str_nat (n div 10) @ (char_of (48 + n mod 10) # ys))"
      by (simp add: s)
    also have "\<dots> = digits_val (acc * 10 ^ length (str_nat (n div 10)) + n div 10)
                       (char_of (48 + n mod 10) # ys)"
      using False by (rule "1.IH")
    also have "\<dots> = digits_val (10 * (acc * 10 ^ length (str_nat (n div 10)) + n div 10) + n mod 10) ys"
      by (rule digits_val_digit) simp
    also have "10 * (acc * 10 ^ length (str_nat (n div 10)) + n div 10) + n mod 10
               = acc * 10 ^ length (str_nat n) + n"
      by (simp add: s algebra_simps)
    finally show ?thesis .
  qed
qed

lemma parse_nat_str_nat: "parse_nat (str_nat n) = Some n"
proof -
  obtain c cs where e: "str_nat n = c # cs" using str_nat_ne[of n] by (cases "str_nat n") auto
  have "is_digit c" using str_nat_digits[of c n] e by simp
  moreover have "digits_val 0 (c # cs) = Some n"
    using digits_val_str_nat[of 0 n "[]"] unfolding e by simp
  ultimately show ?thesis unfolding parse_nat_def e by simp
qed

lemma digit_not_space: "is_digit c \<Longrightarrow> \<not> is_space c"
  by (auto simp: is_digit_def is_space_def)

lemma py_strip_id:
  assumes "s \<noteq> []" and "\<not> is_space (hd s)" and "\<not> is_space (last s)"
  shows "py_strip s = s"
proof -
  have "dropWhile is_space s = s" using assms by (cases s) auto
  moreover have "dropWhile is_space (rev s) = rev s"
    using assms by (cases "rev s") (auto simp: last_rev hd_rev)
  ultimately show ?thesis by (simp add: py_strip_def)
qed

lemma str_nat_hd_last: "is_digit (hd (str_nat n))" "is_digit (last (str_nat n))"
proof -
  have "hd (str_nat n) \<in> set (str_nat n)" "last (str_nat n) \<in> set (str_nat n)"
    using str_nat_ne[of n] by simp_all
  then show "is_digit (hd (str_nat n))" "is_digit (last (str_nat n))"
    using str_nat_digits by blast+
qed

lemma py_strip_str_nat: "py_strip (str_nat n) = str_nat n"
  by (rule py_strip_id) (simp_all add: str_nat_ne str_nat_hd_last digit_not_space)

lemma py_strip_minus: "py_strip (CHR ''-'' # str_nat n) = CHR ''-'' # str_nat n"
proof (rule py_strip_id)
  show "\<not> is_space (hd (CHR ''-'' # str_nat n))" by (simp add: is_space_def)
  show "\<not> is_space (last (CHR ''-'' # str_nat n))"
    by (simp add: str_nat_ne str_nat_hd_last digit_not_space)
qed simp

lemma py_int_py_str: "py_int (py_str i) = Inr i"
proof (cases "i < 0")
  case True
  have "py_int (CHR ''-'' # str_nat (nat (- i))) = Inr (- int (nat (- i)))"
    unfolding py_int_def py_strip_minus by (simp add: parse_nat_str_nat)
  with True show ?thesis by (simp add: py_str_def)
next
  case False
  obtain c cs where e: "str_nat (nat i) = c # cs"
    using str_nat_ne[of "nat i"] by (cases "str_nat (nat i)") auto
  have d: "is_digit c" using str_nat_hd_last(1)[of "nat i"] unfolding e by simp
  have ne: "c \<noteq> CHR ''-''" "c \<noteq> CHR ''+''" using d by (auto simp: is_digit_def)
  have p: "parse_nat (c # cs) = Some (nat i)" using parse_nat_str_nat[of "nat i"] unfolding e .
  have s: "py_strip (c # cs) = c # cs" using py_strip_str_nat[of "nat i"] unfolding e .
  have "py_int (c # cs) = Inr (int (nat i))"
    unfolding py_int_def s Let_def p using ne by simp
  with False e show ?thesis by (simp add: py_str_def)
qed

lemma py_str_chars: "c \<in> set (py_str i) \<Longrightarrow> is_digit c \<or> c = CHR ''-''"
  by (auto simp: py_str_def dest: str_nat_digits split: if_splits)

lemma py_split_ne: "py_split sep s \<noteq> []"
proof (cases s)
  case Nil
  then show ?thesis by simp
next
  case (Cons c cs)
  show ?thesis unfolding Cons
    by (subst py_split.simps(2)) (simp split: list.split)
qed

lemma py_split_at_prefix:
  "sep \<noteq> [] \<Longrightarrow> prefix sep (c # cs) \<Longrightarrow>
   py_split sep (c # cs) = [] # py_split sep (drop (length sep) (c # cs))"
  by (subst py_split.simps(2)) simp

lemma py_split_no_prefix:
  "sep \<noteq> [] \<Longrightarrow> \<not> prefix sep (c # cs) \<Longrightarrow>
   py_split sep (c # cs) = (c # hd (py_split sep cs)) # tl (py_split sep cs)"
  using py_split_ne [of sep cs]
  by (subst py_split.simps(2)) (simp split: list.split)

lemma py_split_at_sep: "sep \<noteq> [] \<Longrightarrow> py_split sep (sep @ b) = [] # py_split sep b"
proof -
  assume ne: "sep \<noteq> []"
  then obtain c cs where e: "sep @ b = c # cs" by (cases sep) auto
  have "py_split sep (c # cs) = [] # py_split sep (drop (length sep) (c # cs))"
    by (rule py_split_at_prefix [OF ne]) (simp add: e [symmetric])
  then show ?thesis unfolding e [symmetric] by simp
qed

lemma py_split_skip:
  "sep \<noteq> [] \<Longrightarrow> hd sep \<notin> set a \<Longrightarrow>
   py_split sep (a @ rest) = (a @ hd (py_split sep rest)) # tl (py_split sep rest)"
proof (induction a)
  case Nil
  then show ?case using py_split_ne[of sep rest] by simp
next
  case (Cons x a)
  have np: "\<not> prefix sep (x # a @ rest)"
    using Cons.prems by (cases sep) auto
  have "py_split sep (x # a @ rest)
        = (x # hd (py_split sep (a @ rest))) # tl (py_split sep (a @ rest))"
    by (rule py_split_no_prefix [OF Cons.prems(1) np])
  then show ?case using Cons by simp
qed

lemma py_split_first:
  "sep \<noteq> [] \<Longrightarrow> \<not> sublist sep (a @ butlast sep) \<Longrightarrow>
   py_split sep (a @ sep @ b) = a # py_split sep b"
proof (induction a)
  case Nil
  then show ?case by (simp add: py_split_at_sep)
next
  case (Cons x a)
  have ns: "\<not> sublist sep (a @ butlast sep)"
    using Cons.prems(2) by (simp add: sublist_Cons_right)
  have np: "\<not> prefix sep (x # a @ sep @ b)"
  proof
    assume p: "prefix sep (x # a @ sep @ b)"
    have e: "x # a @ sep @ b = (x # a @ butlast sep) @ (last sep # b)"
      using Cons.prems(1) by simp
    have "length sep \<le> length (x # a @ butlast sep)" by simp
    with p e have "prefix sep (x # a @ butlast sep)"
      by (metis prefix_length_prefix prefixI)
    then have "sublist sep (x # a @ butlast sep)" by (rule prefix_imp_sublist)
    with Cons.prems(2) show False by simp
  qed
  have "py_split sep (x # a @ sep @ b)
        = (x # hd (py_split sep (a @ sep @ b))) # tl (py_split sep (a @ sep @ b))"
    by (rule py_split_no_prefix [OF Cons.prems(1) np])
  then show ?case using Cons.IH [OF Cons.prems(1) ns] by simp
qed

lemma py_split_no_sep: "sep \<noteq> [] \<Longrightarrow> \<not> sublist sep t \<Longrightarrow> py_split sep t = [t]"
proof (induction t)
  case Nil
  then show ?case by simp
next
  case (Cons x t)
  have np: "\<not> prefix sep (x # t)" using Cons.prems(2) prefix_imp_sublist by blast
  have ns: "\<not> sublist sep t" using Cons.prems(2) by (simp add: sublist_Cons_right)
  have "py_split sep (x # t) = (x # hd (py_split sep t)) # tl (py_split sep t)"
    by (rule py_split_no_prefix [OF Cons.prems(1) np])
  then show ?case using Cons.IH [OF Cons.prems(1) ns] by simp
qed

lemma py_split_char: "s \<notin> set a \<Longrightarrow> py_split [s] (a @ s # b) = a # py_split [s] b"
  using py_split_skip [of "[s]" a "s # b"] py_split_at_sep [of "[s]" b] by simp

lemma py_split_char_none: "s \<notin> set a \<Longrightarrow> py_split [s] a = [a]"
  using py_split_skip [of "[s]" a "[]"] by simp

lemma underscore_not_in_py_str: "CHR ''_'' \<notin> set (py_str u)"
  using py_str_chars [of "CHR ''_''" u] by (auto simp: is_digit_def)

lemma py_split_underscore3:
  "CHR ''_'' \<notin> set a \<Longrightarrow> CHR ''_'' \<notin> set b \<Longrightarrow> CHR ''_'' \<notin> set c \<Longrightarrow>
   py_split ''_'' (a @ CHR ''_'' # b @ CHR ''_'' # c) = [a, b, c]"
  by (simp add: py_split_char py_split_char_none)

lemma callback_user_id_block:
  "cq_data c = Some (''block_user_'' @ py_str u) \<Longrightarrow> callback_user_id c = Inr u"
  using py_split_underscore3 [of "''block''" "''user''" "py_str u"]
  by (simp add: callback_user_id_def py_index_def bind_exn_def py_int_py_str
        underscore_not_in_py_str)

lemma callback_user_id_unblock:
  "cq_data c = Some (''unblock_user_'' @ py_str u) \<Longrightarrow> callback_user_id c = Inr u"
  using py_split_underscore3 [of "''unblock''" "''user''" "py_str u"]
  by (simp add: callback_user_id_def py_index_def bind_exn_def py_int_py_str
        underscore_not_in_py_str)

lemma callback_user_id_end:
  "cq_data c = Some (''end_dialog_'' @ py_str u) \<Longrightarrow> callback_user_id c = Inr u"
  using py_split_underscore3 [of "''end''" "''dialog''" "py_str u"]
  by (simp add: callback_user_id_def py_index_def bind_exn_def py_int_py_str
        underscore_not_in_py_str)

lemma sublist_skip:
  "sep \<noteq> [] \<Longrightarrow> hd sep \<notin> set a \<Longrightarrow> sublist sep (a @ b) \<Longrightarrow> sublist sep b"
proof (induction a)
  case Nil
  then show ?case by simp
next
  case (Cons x a)
  have "\<not> prefix sep (x # a @ b)" using Cons.prems(1,2) by (cases sep) auto
  then have "sublist sep (a @ b)" using Cons.prems(3) by (simp add: sublist_Cons_right)
  then show ?case using Cons by simp
qed

lemma paren_not_in_py_str: "CHR ''('' \<notin> set (py_str u)" "CHR '')'' \<notin> set (py_str u)"
  using py_str_chars [of "CHR ''(''" u] py_str_chars [of "CHR '')''" u]
  by (auto simp: is_digit_def)

lemma paren_not_in_txt_message_from: "CHR ''('' \<notin> set txt_message_from"
  by (simp add: txt_message_from_def)

lemma reply_user_id_tagged:
  assumes "\<not> sublist ''(ID: '' (n @ '' (ID:'')"
  shows "reply_user_id (txt_message_from @ n @ '' (ID: '' @ py_str u @ '')'' @ rest) = Inr u"
proof -
  let ?sep = "''(ID: ''"
  let ?a = "txt_message_from @ n @ '' ''"
  have ns: "\<not> sublist ?sep (?a @ butlast ?sep)"
  proof
    assume "sublist ?sep (?a @ butlast ?sep)"
    then have "sublist ?sep (txt_message_from @ (n @ '' (ID:''))" by simp
    then have "sublist ?sep (n @ '' (ID:'')"
      by (rule sublist_skip [rotated 2]) (simp_all add: paren_not_in_txt_message_from)
    with assms show False by simp
  qed
  have e: "txt_message_from @ n @ '' (ID: '' @ py_str u @ '')'' @ rest
           = ?a @ ?sep @ ((py_str u @ '')'') @ rest)"
    by simp
  have 1: "py_split ?sep (txt_message_from @ n @ '' (ID: '' @ py_str u @ '')'' @ rest)
           = ?a # py_split ?sep ((py_str u @ '')'') @ rest)"
    unfolding e by (rule py_split_first [OF _ ns]) simp
  have 2: "py_split ?sep ((py_str u @ '')'') @ rest)
           = ((py_str u @ '')'') @ hd (py_split ?sep rest)) # tl (py_split ?sep rest)"
    by (rule py_split_skip) (simp_all add: paren_not_in_py_str)
  have 3: "py_split '')'' (py_str u @ CHR '')'' # hd (py_split ?sep rest))
           = py_str u # py_split '')'' (hd (py_split ?sep rest))"
    by (rule py_split_char) (rule paren_not_in_py_str)
  show ?thesis
    unfolding reply_user_id_def 1 2
    using 3 by (simp add: py_index_def bind_exn_def py_int_py_str)
qed

lemma reply_user_name_tagged:
  "\<exists>name. reply_user_name (txt_message_from @ rest) = Inr name"
proof -
  have ne: "txt_message_from \<noteq> []" by (simp add: txt_message_from_def)
  have 1: "py_split txt_message_from (txt_message_from @ rest)
           = [] # py_split txt_message_from rest"
    by (rule py_split_at_sep [OF ne])
  obtain x xs where 2: "py_split txt_message_from rest = x # xs"
    using py_split_ne [of txt_message_from rest] by (cases "py_split txt_message_from rest") auto
  obtain y ys where 3: "py_split '' (ID:'' x = y # ys"
    using py_split_ne [of "'' (ID:''" x] by (cases "py_split '' (ID:'' x") auto
  show ?thesis
    unfolding reply_user_name_def 1 2 by (simp add: py_index_def bind_exn_def 3)
qed

lemma reply_user_id_no_tag:
  "\<not> sublist ''(ID: '' t \<Longrightarrow> reply_user_id t = Inl IndexError"
  by (simp add: reply_user_id_def py_split_no_sep py_index_def bind_exn_def)

lemma not_sublist_hello: "\<not> sublist ''(ID: '' ''hello''"
  by (simp add: sublist_Cons_right)

lemma not_sublist_ann: "\<not> sublist ''(ID: '' (''Ann'' @ '' (ID:'')"
  by (simp add: sublist_Cons_right)

section \<open>How the store functions and the log change the state\<close>

lemma get_dialog_messages_add:
  "get_dialog_messages u (add_dialog_message u h w) =
     (if h \<in> set (get_dialog_messages u w) then get_dialog_messages u w
      else get_dialog_messages u w @ [h])"
  by (simp add: add_dialog_message_def get_dialog_messages_def load_data_def save_data_def
        log_def in_keys_def Let_def split: option.splits)

lemma add_dialog_message_present:
  "h \<in> set (get_dialog_messages u w) \<Longrightarrow> add_dialog_message u h w = w"
  by (auto simp: add_dialog_message_def get_dialog_messages_def load_data_def
        in_keys_def Let_def split: option.splits)

lemma get_dialog_messages_world_empty: "get_dialog_messages u world_empty = []"
  by (simp add: get_dialog_messages_def load_data_def world_empty_def empty_data_def)

lemma log_simps [simp]:
  "data_file (log l m w) = data_file w"
  "ACTIVE_DIALOGS (log l m w) = ACTIVE_DIALOGS w"
  "BLOCKED_USERS (log l m w) = BLOCKED_USERS w"
  "calls (log l m w) = calls w"
  "logged (log l m w) = logged w @ [(l, m)]"
  "get_active_dialogs (log l m w) = get_active_dialogs w"
  "get_blocked_users (log l m w) = get_blocked_users w"
  "get_dialog_messages u (log l m w) = get_dialog_messages u w"
  by (simp_all add: log_def get_active_dialogs_def get_blocked_users_def
        get_dialog_messages_def load_data_def)

lemma calls_update_simps [simp]:
  "get_active_dialogs (w\<lparr>calls := cs\<rparr>) = get_active_dialogs w"
  "get_blocked_users (w\<lparr>calls := cs\<rparr>) = get_blocked_users w"
  "get_dialog_messages u (w\<lparr>calls := cs\<rparr>) = get_dialog_messages u w"
  by (simp_all add: get_active_dialogs_def get_blocked_users_def
        get_dialog_messages_def load_data_def)

lemma add_active_dialog_simps [simp]:
  "ACTIVE_DIALOGS (add_active_dialog u p w) = ACTIVE_DIALOGS w + 1"
  "BLOCKED_USERS (add_active_dialog u p w) = BLOCKED_USERS w"
  "calls (add_active_dialog u p w) = calls w"
  "get_active_dialogs (add_active_dialog u p w) = (get_active_dialogs w)(py_str u \<mapsto> p)"
  "get_blocked_users (add_active_dialog u p w) = get_blocked_users w"
  "get_dialog_messages v (add_active_dialog u p w) = get_dialog_messages v w"
  by (simp_all add: add_active_dialog_def in_keys_def Let_def save_data_def
        get_active_dialogs_def get_blocked_users_def get_dialog_messages_def load_data_def)

lemma world_empty_simps [simp]:
  "ACTIVE_DIALOGS world_empty = 0"
  "BLOCKED_USERS world_empty = 0"
  "calls world_empty = []"
  "logged world_empty = []"
  "get_active_dialogs world_empty = Map.empty"
  "get_blocked_users world_empty = {}"
  by (simp_all add: world_empty_def empty_data_def get_active_dialogs_def
        get_blocked_users_def load_data_def)

lemma need_help_runs:
  assumes "uid (cq_from c) \<notin> get_blocked_users w" and "uid (cq_from c) \<noteq> ADMIN_ID env"
    and "cq_data c = Some d"
    and "answer env (calls w) (txt_ask @ ''.'')"
    and "send_message env (calls w @ [AnswerCallback (txt_ask @ ''.'')]) (uid (cq_from c))
           txt_ask None = Some m"
  shows "need_help env c w =
    (Inr (), log INFO (''User '' @ full_name (cq_from c) @ '' ('' @ py_str (uid (cq_from c))
                       @ '') requested help. Product ID: '' @ py_replace ''need_help_'' [] d)
       (add_active_dialog (uid (cq_from c)) (py_replace ''need_help_'' [] d)
          (w\<lparr>calls := calls w @ [AnswerCallback (txt_ask @ ''.''),
                                  SendMessage (uid (cq_from c)) txt_ask None]\<rparr>)))"
  using assms
  by (simp add: need_help_def Let_def and_then_def cq_answer_def bot_send_message_def)

lemma need_help_world_empty:
  "need_help env_ok press_need_help world_empty =
     (Inr (), log INFO (''User Ann ('' @ py_str 42 @ '') requested help. Product ID: ''
               @ py_replace ''need_help_'' [] ''need_help_1'')
       (add_active_dialog 42 (py_replace ''need_help_'' [] ''need_help_1'')
          (world_empty\<lparr>calls := [AnswerCallback (txt_ask @ ''.''), SendMessage 42 txt_ask None]\<rparr>)))"
  by (subst need_help_runs [where d = "''need_help_1''" and m = 101])
     (simp_all add: press_need_help_def ann_def env_ok_def)

lemma py_replace_need_help_1: "py_replace ''need_help_'' [] ''need_help_1'' = ''1''"
  by (simp add: py_replace.simps(2))

lemma world_session_simps [simp]:
  "ACTIVE_DIALOGS world_session = 1"
  "get_blocked_users world_session = {}"
  "get_active_dialogs world_session = [py_str 42 \<mapsto> ''1'']"
  "calls world_session = [AnswerCallback (txt_ask @ ''.''), SendMessage 42 txt_ask None]"
  by (simp_all add: world_session_def need_help_world_empty py_replace_need_help_1)

lemma py_str_42: "py_str 42 = ''42''"
  by code_simp

lemma callback_user_id_press_block: "callback_user_id press_block = Inr 42"
  using callback_user_id_block [of press_block 42] by (simp add: press_block_def py_str_42)

lemma callback_user_id_press_unblock: "callback_user_id press_unblock = Inr 42"
  using callback_user_id_unblock [of press_unblock 42] by (simp add: press_unblock_def py_str_42)

lemma add_blocked_user_simps [simp]:
  "u \<in> get_blocked_users (add_blocked_user u w)"
  "get_blocked_users (add_blocked_user u w) = insert u (get_blocked_users w)"
  "BLOCKED_USERS (add_blocked_user u w)
     = (if u \<in> get_blocked_users w then BLOCKED_USERS w else BLOCKED_USERS w + 1)"
  "ACTIVE_DIALOGS (add_blocked_user u w) = ACTIVE_DIALOGS w"
  "get_active_dialogs (add_blocked_user u w) = get_active_dialogs w"
  "get_dialog_messages v (add_blocked_user u w) = get_dialog_messages v w"
  "calls (add_blocked_user u w) = calls w"
  by (auto simp: add_blocked_user_def Let_def save_data_def get_blocked_users_def
        get_active_dialogs_def get_dialog_messages_def load_data_def)

lemma remove_active_dialog_simps [simp]:
  "get_active_dialogs (remove_active_dialog u w) = (get_active_dialogs w)(py_str u := None)"
  "get_blocked_users (remove_active_dialog u w) = get_blocked_users w"
  "BLOCKED_USERS (remove_active_dialog u w) = BLOCKED_USERS w"
  "ACTIVE_DIALOGS (remove_active_dialog u w)
     = (if get_active_dialogs w (py_str u) = None then ACTIVE_DIALOGS w
        else ACTIVE_DIALOGS w - 1)"
  "get_dialog_messages v (remove_active_dialog u w) = get_dialog_messages v w"
  "calls (remove_active_dialog u w) = calls w"
  by (auto simp: remove_active_dialog_def Let_def save_data_def get_blocked_users_def
        get_active_dialogs_def get_dialog_messages_def load_data_def in_keys_def)

lemma remove_active_dialog_absent:
  "get_active_dialogs w (py_str u) = None \<Longrightarrow> remove_active_dialog u w = w"
  by (simp add: remove_active_dialog_def Let_def get_active_dialogs_def in_keys_def)

lemma block_user_runs:
  assumes "callback_user_id c = Inr u"
    and "get_chat env (calls w) u = Some name"
    and "answer env (calls w @ [GetChat u]) (txt_user @ name @ txt_blocked)"
  shows "block_user env c w =
    (Inr (), log INFO (''User ID: '' @ py_str u @ '', Name: '' @ name @ '' has been blocked.'')
       (remove_active_dialog u (add_blocked_user u
          (w\<lparr>calls := calls w @ [GetChat u, AnswerCallback (txt_user @ name @ txt_blocked)]\<rparr>))))"
  using assms
  by (simp add: block_user_def and_then_def bot_get_chat_def cq_answer_def Let_def
        in_keys_def remove_active_dialog_absent)

lemma block_user_returns:
  assumes "callback_user_id c = Inr u" and "block_user env c w = (Inr (), w')"
  shows "\<exists>name. get_chat env (calls w) u = Some name
           \<and> answer env (calls w @ [GetChat u]) (txt_user @ name @ txt_blocked)"
  using assms
  by (auto simp: block_user_def and_then_def bot_get_chat_def cq_answer_def Let_def
        split: option.splits if_splits)

lemma callback_user_id_press_end: "callback_user_id press_end = Inr 42"
  using callback_user_id_end [of press_end 42] by (simp add: press_end_def py_str_42)

lemma add_dialog_message_simps [simp]:
  "calls (add_dialog_message u h w) = calls w"
  "ACTIVE_DIALOGS (add_dialog_message u h w) = ACTIVE_DIALOGS w"
  "BLOCKED_USERS (add_dialog_message u h w) = BLOCKED_USERS w"
  "get_active_dialogs (add_dialog_message u h w) = get_active_dialogs w"
  "get_blocked_users (add_dialog_message u h w) = get_blocked_users w"
  by (simp_all add: add_dialog_message_def Let_def save_data_def get_active_dialogs_def
        get_blocked_users_def load_data_def)

lemma remove_dialog_messages_simps [simp]:
  "calls (remove_dialog_messages u w) = calls w"
  "ACTIVE_DIALOGS (remove_dialog_messages u w) = ACTIVE_DIALOGS w"
  "BLOCKED_USERS (remove_dialog_messages u w) = BLOCKED_USERS w"
  "get_active_dialogs (remove_dialog_messages u w) = get_active_dialogs w"
  "get_blocked_users (remove_dialog_messages u w) = get_blocked_users w"
  "get_dialog_messages u (remove_dialog_messages u w) = []"
  "dialog_messages (data_file (remove_dialog_messages u w)) (py_str u) = None"
  "set (logged w) \<subseteq> set (logged (remove_dialog_messages u w))"
  by (auto simp: remove_dialog_messages_def Let_def save_data_def get_active_dialogs_def
        get_blocked_users_def get_dialog_messages_def load_data_def in_keys_def)

lemma delete_messages_calls [simp]:
  "calls (delete_messages env ms w) = calls w @ map (DeleteMessage (ADMIN_ID env)) ms"
  by (induction ms arbitrary: w) (simp_all split: option.split)

lemma delete_messages_data [simp]:
  "data_file (delete_messages env ms w) = data_file w"
  "ACTIVE_DIALOGS (delete_messages env ms w) = ACTIVE_DIALOGS w"
  "BLOCKED_USERS (delete_messages env ms w) = BLOCKED_USERS w"
  by (induction ms arbitrary: w) (simp_all split: option.split)

lemma delete_messages_gets [simp]:
  "get_active_dialogs (delete_messages env ms w) = get_active_dialogs w"
  "get_blocked_users (delete_messages env ms w) = get_blocked_users w"
  "get_dialog_messages u (delete_messages env ms w) = get_dialog_messages u w"
  by (simp_all add: get_active_dialogs_def get_blocked_users_def get_dialog_messages_def
        load_data_def)

lemma delete_messages_logged_mono:
  "set (logged w) \<subseteq> set (logged (delete_messages env ms w))"
proof (induction ms arbitrary: w)
  case Nil
  show ?case by simp
next
  case (Cons m ms)
  show ?case
  proof (cases "delete_message env (calls w) (ADMIN_ID env) m")
    case None
    then show ?thesis
      using Cons [of "w\<lparr>calls := calls w @ [DeleteMessage (ADMIN_ID env) m]\<rparr>"] by simp
  next
    case (Some e)
    then show ?thesis
      using Cons [of "log ERROR (''Failed to delete message '' @ py_str m @ '': '' @ e)
                        (w\<lparr>calls := calls w @ [DeleteMessage (ADMIN_ID env) m]\<rparr>)"]
      by auto
  qed
qed

lemma delete_messages_failure_logged:
  "i < length ms \<Longrightarrow>
   delete_message env (calls w @ map (DeleteMessage (ADMIN_ID env)) (take i ms)) (ADMIN_ID env)
     (ms ! i) = Some e \<Longrightarrow>
   (ERROR, ''Failed to delete message '' @ py_str (ms ! i) @ '': '' @ e)
     \<in> set (logged (delete_messages env ms w))"
proof (induction ms arbitrary: w i)
  case Nil
  then show ?case by simp
next
  case (Cons m ms)
  show ?case
  proof (cases i)
    case 0
    with Cons.prems have f: "delete_message env (calls w) (ADMIN_ID env) m = Some e" by simp
    have "(ERROR, ''Failed to delete message '' @ py_str m @ '': '' @ e)
            \<in> set (logged (log ERROR (''Failed to delete message '' @ py_str m @ '': '' @ e)
                     (w\<lparr>calls := calls w @ [DeleteMessage (ADMIN_ID env) m]\<rparr>)))"
      by simp
    then show ?thesis
      using delete_messages_logged_mono
              [of "log ERROR (''Failed to delete message '' @ py_str m @ '': '' @ e)
                     (w\<lparr>calls := calls w @ [DeleteMessage (ADMIN_ID env) m]\<rparr>)" env ms]
            f 0
      by auto
  next
    case (Suc j)
    let ?w0 = "w\<lparr>calls := calls w @ [DeleteMessage (ADMIN_ID env) m]\<rparr>"
    let ?w1 = "case delete_message env (calls w) (ADMIN_ID env) m of
                 None \<Rightarrow> ?w0
               | Some e' \<Rightarrow> log ERROR (''Failed to delete message '' @ py_str m @ '': '' @ e') ?w0"
    have c: "calls ?w1 = calls w @ [DeleteMessage (ADMIN_ID env) m]"
      by (simp split: option.split)
    have j: "j < length ms" using Cons.prems(1) Suc by simp
    have d: "delete_message env (calls ?w1 @ map (DeleteMessage (ADMIN_ID env)) (take j ms))
               (ADMIN_ID env) (ms ! j) = Some e"
      using Cons.prems(2) Suc unfolding c by simp
    have "(ERROR, ''Failed to delete message '' @ py_str (ms ! j) @ '': '' @ e)
            \<in> set (logged (delete_messages env ms ?w1))"
      by (rule Cons.IH [OF j d])
    then show ?thesis using Suc by simp
  qed
qed

lemma end_dialog_runs:
  assumes "callback_user_id c = Inr u"
    and "get_chat env (calls w) u = Some name"
    and "answer env (calls w @ GetChat u # map (DeleteMessage (ADMIN_ID env))
                       (get_dialog_messages u w)) (txt_dialog_with @ name @ txt_ended)"
  shows "end_dialog env c w =
    and_then (bot_send_message env u txt_more_questions
                (Some [[CallbackButton txt_need_help ''need_help'']])
                (remove_active_dialog u
                   ((if get_dialog_messages u w \<noteq> []
                     then remove_dialog_messages u
                            (delete_messages env (get_dialog_messages u w)
                               (w\<lparr>calls := calls w @ [GetChat u]\<rparr>))
                     else w\<lparr>calls := calls w @ [GetChat u]\<rparr>)
                    \<lparr>calls := calls w @ GetChat u # map (DeleteMessage (ADMIN_ID env))
                                 (get_dialog_messages u w)
                               @ [AnswerCallback (txt_dialog_with @ name @ txt_ended)]\<rparr>)))
      (\<lambda>_ w. (Inr (), log INFO (''Dialog with user ID: '' @ py_str u @ '', Name: ''
                                 @ name @ '' has ended.'') w))"
proof (cases "get_dialog_messages u w = []")
  case True
  then show ?thesis
    using assms
    by (simp add: end_dialog_def and_then_def bot_get_chat_def cq_answer_def Let_def
          in_keys_def remove_active_dialog_absent)
next
  case False
  then show ?thesis
    using assms
    by (simp add: end_dialog_def and_then_def bot_get_chat_def cq_answer_def Let_def
          in_keys_def remove_active_dialog_absent)
qed

lemma remove_active_dialog_more [simp]:
  "dialog_messages (data_file (remove_active_dialog u w)) = dialog_messages (data_file w)"
  "set (logged w) \<subseteq> set (logged (remove_active_dialog u w))"
  by (auto simp: remove_active_dialog_def Let_def save_data_def load_data_def log_def)

lemma filter_is_delete [simp]:
  "filter is_delete (map (DeleteMessage a) ms) = map (DeleteMessage a) ms"
  by (induction ms) (simp_all add: is_delete_def)

lemma world_thread_simps [simp]:
  "get_dialog_messages 42 world_thread = [101, 102]"
  "calls world_thread = calls world_session"
  "get_active_dialogs world_thread = get_active_dialogs world_session"
  by (simp_all add: world_thread_def get_dialog_messages_add world_session_def
        need_help_world_empty get_dialog_messages_world_empty)

lemma snd_and_then_send:
  "snd (and_then (bot_send_message env chat t k w) (\<lambda>_ w. (Inr (), log l m w))) =
     (case send_message env (calls w) chat t k of
        None \<Rightarrow> w\<lparr>calls := calls w @ [SendMessage chat t k]\<rparr>
      | Some x \<Rightarrow> log l m (w\<lparr>calls := calls w @ [SendMessage chat t k]\<rparr>))"
  by (simp add: and_then_def bot_send_message_def split: option.split)

lemma py_str_101: "py_str 101 = ''101''"
  by code_simp

lemma end_dialog_returns:
  assumes "callback_user_id c = Inr u" and "end_dialog env c w = (Inr (), w')"
  shows "\<exists>name. get_chat env (calls w) u = Some name
           \<and> answer env (calls w @ GetChat u # map (DeleteMessage (ADMIN_ID env))
                          (get_dialog_messages u w)) (txt_dialog_with @ name @ txt_ended)"
proof (cases "get_dialog_messages u w = []")
  case True
  then show ?thesis
    using assms
    by (auto simp: end_dialog_def and_then_def bot_get_chat_def cq_answer_def Let_def
          split: option.splits if_splits)
next
  case False
  then show ?thesis
    using assms
    by (auto simp: end_dialog_def and_then_def bot_get_chat_def cq_answer_def Let_def
          split: option.splits if_splits)
qed

lemma end_dialog_world_session_returns:
  "end_dialog env_ok press_end world_session
     = (Inr (), snd (end_dialog env_ok press_end world_session))"
proof -
  have "fst (end_dialog env_ok press_end world_session) = Inr ()"
    by (subst end_dialog_runs [where u = 42 and name = "''Ann''"])
       (simp_all add: callback_user_id_press_end env_ok_def and_then_def bot_send_message_def)
  then show ?thesis by (cases "end_dialog env_ok press_end world_session") simp
qed

lemma forward_to_admin_text_runs:
  assumes "uid (msg_from m) = u" and "full_name (msg_from m) = n"
    and "get_active_dialogs w (py_str u) = Some p"
    and "u \<notin> get_blocked_users w"
    and "msg_text m = Some t" and "t \<noteq> []"
    and "send_message env (calls w) (ADMIN_ID env)
           (txt_message_from @ n @ '' (ID: '' @ py_str u @ '')'' @ [CHR 0x0A]
            @ txt_product_id @ p @ [CHR 0x0A, CHR 0x0A] @ t)
           (Some (admin_keyboard u)) = Some h"
  shows "forward_to_admin env m w =
    (Inr (), log INFO (''Text message from user ID: '' @ py_str u @ '', Name: '' @ n
                       @ '', Product ID: '' @ p @ '' forwarded to admin.'')
       (add_dialog_message u h
          (w\<lparr>calls := calls w @
               [SendMessage (ADMIN_ID env)
                  (txt_message_from @ n @ '' (ID: '' @ py_str u @ '')'' @ [CHR 0x0A]
                   @ txt_product_id @ p @ [CHR 0x0A, CHR 0x0A] @ t)
                  (Some (admin_keyboard u))]\<rparr>)))"
  using assms
  by (simp add: forward_to_admin_def Let_def and_then_def bot_send_message_def truthy_text_def)

lemma admin_reply_runs:
  assumes "msg_reply_to r = Some rr" and "replied_text rr = Some f"
    and "reply_user_id f = Inr u" and "reply_user_name f = Inr name"
    and "msg_text r = Some rt"
    and "send_message env (calls w) u rt None = Some h"
  shows "admin_reply env r w =
    (Inr (), log INFO (''Admin replied to message from user ID: '' @ py_str u @ '', Name: ''
                       @ name @ ''.'')
       ((add_dialog_message u (msg_id r) w)
          \<lparr>calls := calls w @ [SendMessage u rt None]\<rparr>))"
  using assms
  by (simp add: admin_reply_def and_then_def bot_send_message_def)

lemma reply_user_id_forwarded_tagged: "reply_user_id forwarded_tagged = Inr 7"
  by code_simp

lemma reply_user_name_forwarded_tagged: "\<exists>name. reply_user_name forwarded_tagged = Inr name"
  unfolding forwarded_tagged_def by (rule reply_user_name_tagged)

lemma py_str_simps_small: "py_str 7 = ''7''" "py_str 102 = ''102''"
  by code_simp+

lemma get_dialog_messages_world_session [simp]: "get_dialog_messages u world_session = []"
  by (simp add: world_session_def need_help_world_empty get_dialog_messages_world_empty)

lemma get_dialog_messages_add_other:
  "py_str v \<noteq> py_str u \<Longrightarrow>
   get_dialog_messages v (add_dialog_message u h w) = get_dialog_messages v w"
  by (simp add: add_dialog_message_def get_dialog_messages_def load_data_def save_data_def
        Let_def)

section \<open>The Thread Ledger\<close>

text \<open>
  C7. \<open>add_dialog_message\<close> called twice with the same handle \<open>h\<close> for a user whose record is
  empty leaves the record \<open>[h]\<close>, of length 1. More generally, when \<open>h\<close> is already in the
  user's record the call changes nothing at all (not the file, not the log), and a record
  without duplicates stays without duplicates.
\<close>

theorem add_dialog_message_dedup:
  "(get_dialog_messages u w = [] \<longrightarrow>
      get_dialog_messages u (add_dialog_message u h (add_dialog_message u h w)) = [h])
   \<and> (h \<in> set (get_dialog_messages u w) \<longrightarrow> add_dialog_message u h w = w)
   \<and> (distinct (get_dialog_messages u w) \<longrightarrow>
        distinct (get_dialog_messages u (add_dialog_message u h w)))"
  by (simp add: get_dialog_messages_add add_dialog_message_present)

theorem add_dialog_message_dedup_witness:
  "get_dialog_messages 7 world_empty = []
   \<and> get_dialog_messages 7 (add_dialog_message 7 5 (add_dialog_message 7 5 world_empty)) = [5]
   \<and> 5 \<in> set (get_dialog_messages 7 (add_dialog_message 7 5 world_empty))
   \<and> add_dialog_message 7 5 (add_dialog_message 7 5 world_empty)
       = add_dialog_message 7 5 world_empty
   \<and> distinct (get_dialog_messages 7 (add_dialog_message 7 5 world_empty))
   \<and> distinct (get_dialog_messages 7
        (add_dialog_message 7 5 (add_dialog_message 7 5 world_empty)))"
  using add_dialog_message_dedup [of 7 world_empty 5]
        add_dialog_message_dedup [of 7 "add_dialog_message 7 5 world_empty" 5]
  by (simp add: get_dialog_messages_add get_dialog_messages_world_empty)

section \<open>The gauge of active dialogs\<close>

text \<open>
  C1. The claim: however often \<open>need_help\<close> calls \<open>add_active_dialog\<close> for one user, the
  Session Store holds one entry for the user and the gauge of active dialogs goes up once.
  The code keeps one entry, but the gauge goes up at every call: two calls for the same
  user raise it by 2, whatever the state before. So it is at the two presses of
  \<open>need_help\<close> by user 42 from the empty state: both return normally, the store holds the
  one entry of 42, and the gauge stands at 2.
\<close>

theorem active_gauge_counts_every_call:
  "ACTIVE_DIALOGS (add_active_dialog u p' (add_active_dialog u p w)) = ACTIVE_DIALOGS w + 2
   \<and> get_active_dialogs (add_active_dialog u p' (add_active_dialog u p w))
       = (get_active_dialogs w)(py_str u \<mapsto> p')
   \<and> ACTIVE_DIALOGS world_empty = 0
   \<and> need_help env_ok press_need_help world_empty = (Inr (), world_session)
   \<and> fst (need_help env_ok press_need_help world_session) = Inr ()
   \<and> get_active_dialogs (snd (need_help env_ok press_need_help world_session))
       = [py_str 42 \<mapsto> ''1'']
   \<and> ACTIVE_DIALOGS (snd (need_help env_ok press_need_help world_session)) = 2"
proof -
  have 1: "need_help env_ok press_need_help world_empty = (Inr (), world_session)"
    by (simp add: world_session_def need_help_world_empty)
  have 2: "\<exists>w. need_help env_ok press_need_help world_session = (Inr (), w)
             \<and> ACTIVE_DIALOGS w = 2 \<and> get_active_dialogs w = [py_str 42 \<mapsto> ''1'']"
    by (subst need_help_runs [where d = "''need_help_1''" and m = 103])
       (simp_all add: press_need_help_def ann_def env_ok_def py_replace_need_help_1)
  show ?thesis using 1 2 by auto
qed

section \<open>A document without text\<close>

text \<open>
  C3. The claim: every message of a user with an active session takes one of the four
  paths of \<open>forward_to_admin\<close> without a fault, a document without text the path of
  documents. In the code user 42 has an active session and sends a document with no text
  and no photo: the filter of the registration raises AttributeError, and the dispatcher
  ends the processing of the message with that exception, the state as it was; the handler
  does not run.
\<close>

theorem document_without_text_faults:
  "in_keys (StrKey (py_str (uid (msg_from document_message)))) (get_active_dialogs world_session)
   \<and> msg_document document_message = Some ''file-1''
   \<and> forward_to_admin_filter document_message world_session = Inl AttributeError
   \<and> dispatch_forward_to_admin env document_message world_session
       = (Inl AttributeError, world_session)"
proof -
  have k: "in_keys (StrKey (py_str 42)) (get_active_dialogs world_session)"
    by (simp add: in_keys_def)
  have f: "forward_to_admin_filter document_message world_session = Inl AttributeError"
    using k by (simp add: forward_to_admin_filter_def document_message_def ann_def truthy_photo_def)
  show ?thesis using k f
    by (simp add: dispatch_forward_to_admin_def document_message_def ann_def)
qed

section \<open>Blocking and unblocking\<close>

text \<open>
  C9. \<open>block_user\<close> for a user \<open>u\<close> who has no active session, the transport answering:
  it returns normally, \<open>u\<close> is in the Block List afterwards, the gauge of blocked users has
  gone up by one when \<open>u\<close> was not blocked before (from 0 to 1 on a fresh state) and is as it
  was otherwise, and the Session Store and the gauge of active dialogs are as they were.
\<close>

theorem block_user_without_session:
  assumes "callback_user_id c = Inr u"
    and "get_active_dialogs w (py_str u) = None"
    and "get_chat env (calls w) u = Some name"
    and "answer env (calls w @ [GetChat u]) (txt_user @ name @ txt_blocked)"
  shows "fst (block_user env c w) = Inr ()
    \<and> u \<in> get_blocked_users (snd (block_user env c w))
    \<and> BLOCKED_USERS (snd (block_user env c w))
        = (if u \<in> get_blocked_users w then BLOCKED_USERS w else BLOCKED_USERS w + 1)
    \<and> get_active_dialogs (snd (block_user env c w)) = get_active_dialogs w
    \<and> ACTIVE_DIALOGS (snd (block_user env c w)) = ACTIVE_DIALOGS w"
proof -
  have "(get_active_dialogs w)(py_str u := None) = get_active_dialogs w"
    using assms(2) by (simp add: fun_upd_idem)
  then show ?thesis
    using assms(2) by (simp add: block_user_runs [OF assms(1,3,4)])
qed

theorem block_user_without_session_witness:
  "callback_user_id press_block = Inr 42
   \<and> get_active_dialogs world_empty (py_str 42) = None
   \<and> get_chat env_ok (calls world_empty) 42 = Some ''Ann''
   \<and> answer env_ok (calls world_empty @ [GetChat 42]) (txt_user @ ''Ann'' @ txt_blocked)
   \<and> fst (block_user env_ok press_block world_empty) = Inr ()
   \<and> 42 \<in> get_blocked_users (snd (block_user env_ok press_block world_empty))
   \<and> BLOCKED_USERS world_empty = 0
   \<and> BLOCKED_USERS (snd (block_user env_ok press_block world_empty)) = 1
   \<and> get_active_dialogs (snd (block_user env_ok press_block world_empty)) = Map.empty
   \<and> ACTIVE_DIALOGS (snd (block_user env_ok press_block world_empty)) = 0"
  using block_user_without_session [of press_block 42 world_empty env_ok "''Ann''"]
  by (simp add: callback_user_id_press_block env_ok_def)

lemma block_user_world_session_returns:
  "\<exists>w'. block_user env_ok press_block world_session = (Inr (), w')"
  by (subst block_user_runs [where u = 42 and name = "''Ann''"])
     (simp_all add: callback_user_id_press_block env_ok_def)

text \<open>
  C4. After \<open>block_user\<close> has returned normally for the user \<open>u\<close>, no message of \<open>u\<close> is
  forwarded, whatever its payload and whatever the transport does: \<open>u\<close> is blocked and has no
  session, so the filter of \<open>forward_to_admin\<close> is False and the dispatcher leaves the state
  as it is; and the handler itself, were it run, returns at the blocked check without a call
  to the transport.
\<close>

theorem blocked_user_is_not_forwarded:
  assumes "callback_user_id c = Inr u"
    and "block_user env c w = (Inr (), w')"
    and "uid (msg_from m) = u"
  shows "u \<in> get_blocked_users w'
    \<and> forward_to_admin_filter m w' = Inr False
    \<and> dispatch_forward_to_admin env' m w' = (Inr False, w')
    \<and> fst (forward_to_admin env' m w') = Inr ()
    \<and> calls (snd (forward_to_admin env' m w')) = calls w'"
proof -
  obtain name where n: "get_chat env (calls w) u = Some name"
      "answer env (calls w @ [GetChat u]) (txt_user @ name @ txt_blocked)"
    using block_user_returns [OF assms(1,2)] by blast
  have w': "w' = log INFO (''User ID: '' @ py_str u @ '', Name: '' @ name @ '' has been blocked.'')
       (remove_active_dialog u (add_blocked_user u
          (w\<lparr>calls := calls w @ [GetChat u, AnswerCallback (txt_user @ name @ txt_blocked)]\<rparr>)))"
    using assms(2) unfolding block_user_runs [OF assms(1) n] by simp
  have b: "u \<in> get_blocked_users w'" unfolding w' by simp
  have a: "get_active_dialogs w' (py_str u) = None" unfolding w' by simp
  have f: "forward_to_admin_filter m w' = Inr False"
    using a assms(3) by (simp add: forward_to_admin_filter_def in_keys_def)
  have h: "forward_to_admin env' m w' =
      (Inr (), log WARNING (''User ID: '' @ py_str u @ '', Name: '' @ full_name (msg_from m)
                            @ '' tried to send a message but was blocked.'') w')"
    using b assms(3) by (simp add: forward_to_admin_def Let_def)
  show ?thesis using b f by (simp add: h dispatch_forward_to_admin_def)
qed

theorem blocked_user_is_not_forwarded_witness:
  "callback_user_id press_block = Inr 42
   \<and> block_user env_ok press_block world_session
       = (Inr (), snd (block_user env_ok press_block world_session))
   \<and> uid (msg_from text_message) = 42
   \<and> forward_to_admin_filter text_message world_session = Inr True
   \<and> forward_to_admin_filter text_message (snd (block_user env_ok press_block world_session))
       = Inr False
   \<and> dispatch_forward_to_admin env_ok text_message
        (snd (block_user env_ok press_block world_session))
       = (Inr False, snd (block_user env_ok press_block world_session))
   \<and> calls (snd (forward_to_admin env_ok text_message
                    (snd (block_user env_ok press_block world_session))))
       = calls (snd (block_user env_ok press_block world_session))"
proof -
  have r: "block_user env_ok press_block world_session
       = (Inr (), snd (block_user env_ok press_block world_session))"
    using block_user_world_session_returns by auto
  have u: "uid (msg_from text_message) = 42" by (simp add: text_message_def ann_def)
  have t: "forward_to_admin_filter text_message world_session = Inr True"
    by (simp add: forward_to_admin_filter_def in_keys_def text_message_def ann_def
          truthy_photo_def startswith_def)
  show ?thesis
    using blocked_user_is_not_forwarded [OF callback_user_id_press_block r u, of env_ok]
          callback_user_id_press_block r u t
    by simp
qed

text \<open>
  C8. \<open>unblock_user\<close> for a user \<open>u\<close> who is not in the Block List, \<open>get_chat\<close> answering:
  the only calls are \<open>get_chat\<close> and the answer \<open>not blocked\<close>, a text different from the
  answer \<open>unblocked\<close>; the stored document, so the Block List, and the gauge of blocked
  users are as they were; and when the answer is delivered the handler returns normally
  and logs one warning.
\<close>

theorem unblock_user_not_blocked:
  assumes "callback_user_id c = Inr u"
    and "u \<notin> get_blocked_users w"
    and "get_chat env (calls w) u = Some name"
  shows "calls (snd (unblock_user env c w))
           = calls w @ [GetChat u, AnswerCallback (txt_user @ name @ txt_not_blocked)]
    \<and> txt_user @ name @ txt_not_blocked \<noteq> txt_user @ name @ txt_unblocked
    \<and> data_file (snd (unblock_user env c w)) = data_file w
    \<and> BLOCKED_USERS (snd (unblock_user env c w)) = BLOCKED_USERS w
    \<and> (answer env (calls w @ [GetChat u]) (txt_user @ name @ txt_not_blocked) \<longrightarrow>
         fst (unblock_user env c w) = Inr ()
         \<and> logged (snd (unblock_user env c w)) = logged w @
             [(WARNING, ''Attempt to unblock user ID: '' @ py_str u @ '', Name: '' @ name
                        @ '', who was not blocked.'')])"
proof -
  have d: "txt_not_blocked \<noteq> txt_unblocked"
    by (simp add: txt_not_blocked_def txt_unblocked_def)
  show ?thesis
    using assms d
    by (simp add: unblock_user_def and_then_def bot_get_chat_def cq_answer_def)
qed

theorem unblock_user_not_blocked_witness:
  "callback_user_id press_unblock = Inr 42
   \<and> 42 \<notin> get_blocked_users world_empty
   \<and> get_chat env_ok (calls world_empty) 42 = Some ''Ann''
   \<and> answer env_ok (calls world_empty @ [GetChat 42]) (txt_user @ ''Ann'' @ txt_not_blocked)
   \<and> calls (snd (unblock_user env_ok press_unblock world_empty))
       = [GetChat 42, AnswerCallback (txt_user @ ''Ann'' @ txt_not_blocked)]
   \<and> data_file (snd (unblock_user env_ok press_unblock world_empty)) = data_file world_empty
   \<and> BLOCKED_USERS (snd (unblock_user env_ok press_unblock world_empty)) = 0
   \<and> fst (unblock_user env_ok press_unblock world_empty) = Inr ()
   \<and> logged (snd (unblock_user env_ok press_unblock world_empty)) =
        [(WARNING, ''Attempt to unblock user ID: '' @ py_str 42 @ '', Name: Ann''
                   @ '', who was not blocked.'')]"
  using unblock_user_not_blocked [of press_unblock 42 world_empty env_ok "''Ann''"]
  by (simp add: callback_user_id_press_unblock env_ok_def)

section \<open>The end of a dialog\<close>



text \<open>
  C10. When \<open>end_dialog\<close> returns normally, its last call is the message to the user with
  a keyboard of one button, whose callback data is \<open>need_help\<close>. A callback query with
  that data fails the filter of \<open>need_help\<close>, which asks for the prefix \<open>need_help_\<close>, and
  the filter of every other handler: whoever presses the button and whatever the state, no
  handler runs and the state stays as it is; no session is created.
\<close>

theorem need_help_button_reaches_no_handler:
  assumes "callback_user_id c = Inr u"
    and "end_dialog env c w = (Inr (), w')"
  shows "last (calls w') = SendMessage u txt_more_questions
                             (Some [[CallbackButton txt_need_help ''need_help'']])
    \<and> button_data (CallbackButton txt_need_help ''need_help'') = Some ''need_help''
    \<and> need_help_filter \<lparr>cq_from = usr, cq_data = Some ''need_help''\<rparr> = Inr False
    \<and> dispatch_callback_query env' \<lparr>cq_from = usr, cq_data = Some ''need_help''\<rparr> v
        = (Inr None, v)"
proof -
  obtain name where n: "get_chat env (calls w) u = Some name"
      "answer env (calls w @ GetChat u # map (DeleteMessage (ADMIN_ID env))
                     (get_dialog_messages u w)) (txt_dialog_with @ name @ txt_ended)"
    using end_dialog_returns [OF assms] by blast
  have "calls (snd (end_dialog env c w)) =
           calls w @ GetChat u # map (DeleteMessage (ADMIN_ID env)) (get_dialog_messages u w)
           @ [AnswerCallback (txt_dialog_with @ name @ txt_ended),
              SendMessage u txt_more_questions
                (Some [[CallbackButton txt_need_help ''need_help'']])]"
    unfolding end_dialog_runs [OF assms(1) n] snd_and_then_send
    by (simp split: option.split)
  then have "last (calls w') = SendMessage u txt_more_questions
                             (Some [[CallbackButton txt_need_help ''need_help'']])"
    unfolding assms(2) by simp
  then show ?thesis
    by (simp add: button_data_def need_help_filter_def dispatch_callback_query_def
          startswith_def)
qed

theorem need_help_button_reaches_no_handler_witness:
  "callback_user_id press_end = Inr 42
   \<and> end_dialog env_ok press_end world_session
       = (Inr (), snd (end_dialog env_ok press_end world_session))
   \<and> last (calls (snd (end_dialog env_ok press_end world_session)))
       = SendMessage 42 txt_more_questions (Some [[CallbackButton txt_need_help ''need_help'']])
   \<and> need_help_filter \<lparr>cq_from = ann, cq_data = Some ''need_help''\<rparr> = Inr False
   \<and> dispatch_callback_query env_ok \<lparr>cq_from = ann, cq_data = Some ''need_help''\<rparr>
        (snd (end_dialog env_ok press_end world_session))
       = (Inr None, snd (end_dialog env_ok press_end world_session))"
  using need_help_button_reaches_no_handler
          [OF callback_user_id_press_end end_dialog_world_session_returns,
           of ann env_ok "snd (end_dialog env_ok press_end world_session)"]
        callback_user_id_press_end end_dialog_world_session_returns
  by simp

section \<open>The reply of the operator\<close>







end
